theory Spec2Isabelle
  imports Complex_Main
begin

section \<open>JavaScript strings and values\<close>

text \<open>
  A JavaScript string is modelled as a \<^typ>\<open>string\<close> whose characters are the code
  units below 256 (Latin-1). An optional value (\<open>undefined\<close>, \<open>null\<close>, a missing
  property) is an \<^typ>\<open>'a option\<close>; a call to an external provider either throws or
  returns.
\<close>

datatype 'a outcome = Threw | Returned 'a

definition nl :: char where
  "nl = CHR 0x0A"

definition js_space :: "char \<Rightarrow> bool" where
  \<comment> \<open>the class \<open>\s\<close> of a regular expression, which is also what \<open>trim\<close> strips\<close>
  "js_space c = (c \<in> set [CHR 0x09, CHR 0x0A, CHR 0x0B, CHR 0x0C, CHR 0x0D, CHR 0x20, CHR 0xA0])"

definition trim :: "string \<Rightarrow> string" where
  "trim s = rev (dropWhile js_space (rev (dropWhile js_space s)))"

function replace_runs :: "(char \<Rightarrow> bool) \<Rightarrow> string \<Rightarrow> string \<Rightarrow> string" where
  \<comment> \<open>\<open>s.replace(/P+/g, r)\<close>: every maximal run of characters of class \<open>P\<close> becomes \<open>r\<close>\<close>
  "replace_runs P r [] = []"
| "replace_runs P r (c # cs) =
     (if P c then r @ replace_runs P r (dropWhile P cs) else c # replace_runs P r cs)"
  by pat_completeness auto
termination
  by (relation "measure (\<lambda>(P, r, s). length s)")
     (auto simp: le_imp_less_Suc length_dropWhile_le)

fun starts_with :: "string \<Rightarrow> string \<Rightarrow> bool" where
  "starts_with s [] = True"
| "starts_with [] (k # ks) = False"
| "starts_with (c # cs) (k # ks) = (c = k \<and> starts_with cs ks)"

fun js_includes :: "string \<Rightarrow> string \<Rightarrow> bool" where
  \<comment> \<open>\<open>s.includes(k)\<close>\<close>
  "js_includes [] k = (k = [])"
| "js_includes (c # cs) k = (starts_with (c # cs) k \<or> js_includes cs k)"

fun split_char :: "char \<Rightarrow> string \<Rightarrow> string list" where
  \<comment> \<open>\<open>s.split(d)\<close> for a one-character separator; the result is never empty\<close>
  "split_char d [] = [[]]"
| "split_char d (c # cs) =
     (if c = d then [] # split_char d cs
      else (case split_char d cs of [] \<Rightarrow> [[c]] | w # ws \<Rightarrow> (c # w) # ws))"

definition pop :: "'a list \<Rightarrow> 'a option" where
  \<comment> \<open>\<open>xs.pop()\<close>: the last element, \<open>undefined\<close> on an empty array\<close>
  "pop xs = (if xs = [] then None else Some (last xs))"

definition or_else :: "string option \<Rightarrow> string option \<Rightarrow> string option" where
  \<comment> \<open>\<open>a || b\<close> on optional strings: \<open>undefined\<close> and the empty string are falsy\<close>
  "or_else a b = (case a of None \<Rightarrow> b | Some s \<Rightarrow> if s = [] then b else Some s)"

definition truthy :: "string option \<Rightarrow> bool" where
  \<comment> \<open>the truth value of an optional string: \<open>undefined\<close> and the empty string are falsy\<close>
  "truthy v = (case v of None \<Rightarrow> False | Some s \<Rightarrow> s \<noteq> [])"

definition template :: "string option \<Rightarrow> string" where
  \<comment> \<open>the text a template literal writes for a value that may be \<open>undefined\<close>\<close>
  "template v = (case v of None \<Rightarrow> ''undefined'' | Some s \<Rightarrow> s)"

section \<open>OCR adapter (services/googleVisionService.js)\<close>

text \<open>
  The answers of the Vision client are inputs of the model. A text annotation carries its
  description and an optional confidence; a full-text annotation carries its pages
  (page, block, paragraph, word, symbol text) and its text.
\<close>

record annotation =
  a_description :: string
  a_confidence :: "real option"

type_synonym v_word = "string list"
type_synonym v_paragraph = "v_word list"
type_synonym v_block = "v_paragraph list"
type_synonym v_page = "v_block list"

record fullTextAnnotation =
  f_pages :: "v_page list option"
  f_text :: "string option"

record vision_result =
  v_success :: bool
  v_structuredText :: "string option"
  v_extractedText :: "string option"
  v_rawText :: "string option"
  v_confidence :: real

definition fallbackText :: "string option \<Rightarrow> string" where
  \<comment> \<open>the placeholder text of \<open>fallbackTextExtraction\<close>, ending in the file name\<close>
  "fallbackText name =
     ''[OCR Service Unavailable]'' @ [nl, nl] @
     ''This appears to be an uploaded image file. The Google Vision API is not currently configured, so automatic text extraction is not available.'' @ [nl, nl] @
     ''To use this service properly, please:'' @ [nl] @
     ''1. Set up a Google Cloud Project'' @ [nl] @
     ''2. Enable the Vision API'' @ [nl] @
     ''3. Create a service account and download the credentials JSON file'' @ [nl] @
     ''4. Set the GOOGLE_CLOUD_PROJECT_ID and GOOGLE_APPLICATION_CREDENTIALS environment variables'' @ [nl, nl] @
     ''For now, you can manually type the content from your image in the prompt field to get AI analysis.'' @ [nl, nl] @
     ''Image file: '' @ template name"

definition fallbackTextExtraction :: "string \<Rightarrow> vision_result" where
  "fallbackTextExtraction imagePath =
     (let text = fallbackText (pop (split_char CHR ''/'' imagePath))
      in \<lparr>v_success = True, v_structuredText = None, v_extractedText = Some text,
          v_rawText = Some text, v_confidence = 0\<rparr>)"

definition processExtractedText :: "string \<Rightarrow> string" where
  "processExtractedText rawText =
     (if rawText = [] then []
      else trim (replace_runs js_space '' '' (replace_runs (\<lambda>c. c = nl) [nl] rawText)))"

definition extractTextFromImage ::
  "bool \<Rightarrow> annotation list option outcome \<Rightarrow> string \<Rightarrow> vision_result" where
  "extractTextFromImage isConfigured textDetection imagePath =
     (if \<not> isConfigured then fallbackTextExtraction imagePath
      else case textDetection of
        Threw \<Rightarrow> fallbackTextExtraction imagePath
      | Returned None \<Rightarrow> fallbackTextExtraction imagePath
      | Returned (Some []) \<Rightarrow> fallbackTextExtraction imagePath
      | Returned (Some (d # ds)) \<Rightarrow>
          \<lparr>v_success = True, v_structuredText = None,
           v_extractedText = Some (processExtractedText (a_description d)),
           v_rawText = Some (a_description d),
           v_confidence = (case a_confidence d of None \<Rightarrow> 0.8
                           | Some c \<Rightarrow> if c = 0 then 0.8 else c)\<rparr>)"

definition paragraphText :: "v_paragraph \<Rightarrow> string" where
  \<comment> \<open>the two inner forEach calls: the symbols of each word, then one space\<close>
  "paragraphText p = concat (map (\<lambda>w. concat w @ '' '') p)"

definition structuredTextOf :: "v_page list \<Rightarrow> string" where
  \<comment> \<open>the three outer forEach calls: each paragraph trimmed and followed by two line breaks\<close>
  "structuredTextOf ps =
     concat (map (\<lambda>p. trim (paragraphText p) @ [nl, nl]) (concat (concat ps)))"

definition detectDocumentStructure ::
  "bool \<Rightarrow> fullTextAnnotation option outcome \<Rightarrow> annotation list option outcome \<Rightarrow>
   string \<Rightarrow> vision_result" where
  "detectDocumentStructure isConfigured documentTextDetection textDetection imagePath =
     (if \<not> isConfigured then fallbackTextExtraction imagePath
      else case documentTextDetection of
        Threw \<Rightarrow> extractTextFromImage isConfigured textDetection imagePath
      | Returned None \<Rightarrow> extractTextFromImage isConfigured textDetection imagePath
      | Returned (Some fta) \<Rightarrow>
          (case f_pages fta of
             None \<Rightarrow> extractTextFromImage isConfigured textDetection imagePath
           | Some ps \<Rightarrow>
               \<lparr>v_success = True, v_structuredText = Some (trim (structuredTextOf ps)),
                v_extractedText = None, v_rawText = None,
                v_confidence = (if truthy (f_text fta) then 0.9 else 0.7)\<rparr>))"

definition final_component :: "string \<Rightarrow> string" where
  \<comment> \<open>the file name of a path, in the words of the specification: what follows the last \<open>/\<close>\<close>
  "final_component p = rev (takeWhile (\<lambda>c. c \<noteq> CHR ''/'') (rev p))"

section \<open>More string operations\<close>

definition or_default :: "string option \<Rightarrow> string \<Rightarrow> string" where
  \<comment> \<open>\<open>a || d\<close> where \<open>d\<close> is a non-empty literal\<close>
  "or_default a d = (case a of None \<Rightarrow> d | Some s \<Rightarrow> if s = [] then d else s)"

definition substring0 :: "nat \<Rightarrow> string \<Rightarrow> string" where
  \<comment> \<open>\<open>s.substring(0, n)\<close>\<close>
  "substring0 n s = take n s"

fun join :: "string \<Rightarrow> string list \<Rightarrow> string" where
  \<comment> \<open>\<open>xs.join(sep)\<close>\<close>
  "join sep [] = []"
| "join sep [x] = x"
| "join sep (x # y # ys) = x @ sep @ join sep (y # ys)"

definition digit :: "nat \<Rightarrow> char" where
  "digit n = char_of (48 + n)"

fun show_nat :: "nat \<Rightarrow> string" where
  \<comment> \<open>the decimal text of a natural number, as a template literal writes it\<close>
  "show_nat n = (if n < 10 then [digit n] else show_nat (n div 10) @ [digit (n mod 10)])"

declare show_nat.simps [simp del]

definition to_lower :: "char \<Rightarrow> char" where
  \<comment> \<open>\<open>toLowerCase\<close> on one Latin-1 character\<close>
  "to_lower c =
     (let n = (of_char c :: nat)
      in if (65 \<le> n \<and> n \<le> 90) \<or> (192 \<le> n \<and> n \<le> 222 \<and> n \<noteq> 215) then char_of (n + 32) else c)"

definition toLowerCase :: "string \<Rightarrow> string" where
  "toLowerCase s = map to_lower s"

function split_runs :: "(char \<Rightarrow> bool) \<Rightarrow> string \<Rightarrow> string list" where
  \<comment> \<open>\<open>s.split(/P+/)\<close>: the pieces between the maximal runs of characters of class \<open>P\<close>\<close>
  "split_runs P [] = [[]]"
| "split_runs P (c # cs) =
     (if P c then [] # split_runs P (dropWhile P cs)
      else (case split_runs P cs of [] \<Rightarrow> [[c]] | w # ws \<Rightarrow> (c # w) # ws))"
  by pat_completeness auto
termination
  by (relation "measure (\<lambda>(P, s). length s)")
     (auto simp: le_imp_less_Suc length_dropWhile_le)

fun drop_nl :: "string \<Rightarrow> string" where
  \<comment> \<open>the optional \<open>\n?\<close> after a code fence\<close>
  "drop_nl [] = []"
| "drop_nl (c # cs) = (if c = nl then cs else c # cs)"

function remove_fence :: "string \<Rightarrow> string \<Rightarrow> string" where
  \<comment> \<open>\<open>s.replace(/lit\n?/g, '')\<close> for a non-empty literal \<open>lit\<close>\<close>
  "remove_fence lit [] = []"
| "remove_fence lit (c # cs) =
     (if lit \<noteq> [] \<and> starts_with (c # cs) lit
      then remove_fence lit (drop_nl (drop (length lit - 1) cs))
      else c # remove_fence lit cs)"
  by pat_completeness auto
termination
proof (relation "measure (\<lambda>(lit, s). length s)")
  show "wf (measure (\<lambda>(lit, s). length s))" by simp
next
  fix lit :: string and c :: char and cs :: string
  have "length (drop_nl (drop (length lit - 1) cs)) \<le> length (drop (length lit - 1) cs)"
    by (cases "drop (length lit - 1) cs") auto
  then show "((lit, drop_nl (drop (length lit - 1) cs)), lit, c # cs) \<in> measure (\<lambda>(lit, s). length s)"
    by simp
next
  fix lit :: string and c :: char and cs :: string
  show "((lit, cs), lit, c # cs) \<in> measure (\<lambda>(lit, s). length s)" by simp
qed

definition json_span :: "string \<Rightarrow> string option" where
  \<comment> \<open>\<open>s.match(/\{[\s\S]*\}/)\<close>: from the first \<open>{\<close> to the last \<open>}\<close> after it\<close>
  "json_span s =
     (case dropWhile (\<lambda>c. c \<noteq> CHR ''{'') s of
        [] \<Rightarrow> None
      | b # r \<Rightarrow>
          (let body = rev (dropWhile (\<lambda>c. c \<noteq> CHR ''}'') (rev r))
           in if body = [] then None else Some (b # body)))"

fun starts_with_ci :: "string \<Rightarrow> string \<Rightarrow> bool" where
  \<comment> \<open>a literal matched at the start under the flag \<open>i\<close>\<close>
  "starts_with_ci s [] = True"
| "starts_with_ci [] (k # ks) = False"
| "starts_with_ci (c # cs) (k # ks) = (to_lower c = to_lower k \<and> starts_with_ci cs ks)"

fun first_match :: "(string \<Rightarrow> 'a option) \<Rightarrow> string \<Rightarrow> 'a option" where
  \<comment> \<open>a regular expression is tried at each position from the left\<close>
  "first_match f [] = f []"
| "first_match f (c # cs) = (case f (c # cs) of Some v \<Rightarrow> Some v | None \<Rightarrow> first_match f cs)"

definition after_key :: "string \<Rightarrow> string \<Rightarrow> string option" where
  \<comment> \<open>the common prefix \<open>"name"[\s]*:[\s]*\<close> of the two scraping expressions: what follows it\<close>
  "after_key name s =
     (let k = [CHR 0x22] @ name @ [CHR 0x22]
      in if \<not> starts_with_ci s k then None
         else (case dropWhile js_space (drop (length k) s) of
                 [] \<Rightarrow> None
               | c # r \<Rightarrow> if c = CHR '':'' then Some (dropWhile js_space r) else None))"

definition delimited :: "char \<Rightarrow> char \<Rightarrow> bool \<Rightarrow> string \<Rightarrow> string option" where
  \<comment> \<open>\<open>open ([^close]*) close\<close> at the start of \<open>s\<close> (\<open>+\<close> instead of \<open>*\<close> when \<open>nonempty\<close>)\<close>
  "delimited opn cls nonempty s =
     (case s of
        [] \<Rightarrow> None
      | c # r \<Rightarrow>
          if c \<noteq> opn then None
          else (let v = takeWhile (\<lambda>x. x \<noteq> cls) r
                in if dropWhile (\<lambda>x. x \<noteq> cls) r = [] \<or> (nonempty \<and> v = []) then None
                   else Some v))"

definition extractSection :: "string \<Rightarrow> string \<Rightarrow> string option" where
  "extractSection text sectionName =
     first_match (\<lambda>s. case after_key sectionName s of None \<Rightarrow> None
                      | Some r \<Rightarrow> delimited (CHR 0x22) (CHR 0x22) False r) text"

definition strip_quote :: "char \<Rightarrow> string \<Rightarrow> string" where
  \<comment> \<open>\<open>s.replace(/^q|q$/g, '')\<close>\<close>
  "strip_quote q s =
     (let s1 = (case s of [] \<Rightarrow> [] | c # cs \<Rightarrow> if c = q then cs else s)
      in if s1 \<noteq> [] \<and> last s1 = q then butlast s1 else s1)"

definition extractArraySection :: "string \<Rightarrow> string \<Rightarrow> string list option" where
  "extractArraySection text sectionName =
     (case first_match (\<lambda>s. case after_key sectionName s of None \<Rightarrow> None
                           | Some r \<Rightarrow> delimited (CHR ''['') (CHR '']'') True r) text of
        None \<Rightarrow> None
      | Some arrayContent \<Rightarrow>
          Some (filter (\<lambda>item. length item > 0)
                  (map (\<lambda>item. strip_quote (CHR 0x27) (strip_quote (CHR 0x22) (trim item)))
                       (split_char (CHR '','') arrayContent))))"

section \<open>AI-analysis adapter (unnamed/part_000: the Gemini service)\<close>

text \<open>
  The answer of \<open>generateContent\<close> is an input of the model: the call throws or returns a
  text. The prompt that is built only reaches the provider and is not modelled.
  \<open>JSON.parse\<close> is a parameter that returns \<open>None\<close> when it throws; the parsed object is
  read at the types the prompt names, a property that is missing or of another type being
  \<open>None\<close>. An element of \<open>questions\<close> that is \<open>null\<close> is \<open>None\<close>.
\<close>

record analysis =
  an_summary :: string
  an_explanation :: string
  an_keyPoints :: "string list"
  an_concepts :: "string list"
  an_searchKeywords :: "string list"

record analysis_result =
  ar_success :: bool
  ar_analysis :: analysis

record parsed_analysis =
  p_summary :: "string option"
  p_explanation :: "string option"
  p_keyPoints :: "string list option"
  p_concepts :: "string list option"
  p_searchKeywords :: "string list option"

record question =
  q_type :: string
  q_question :: string
  q_options :: "string list option"
  q_correctAnswer :: string
  q_explanation :: string

record quiz_result =
  qr_success :: bool
  qr_questions :: "question list"

record parsed_question =
  pq_type :: "string option"
  pq_question :: "string option"
  pq_options :: "string list option"
  pq_correctAnswer :: "string option"
  pq_explanation :: "string option"

record answer_result =
  as_success :: bool
  as_answer :: string

definition fallbackAnalysis :: "string \<Rightarrow> string \<Rightarrow> analysis_result" where
  "fallbackAnalysis extractedText userPrompt =
     (let wordCount = length (split_runs js_space extractedText);
          sentences = filter (\<lambda>s. length (trim s) > 0)
                        (split_runs (\<lambda>c. c \<in> set ''.!?'') extractedText);
          firstSentences = join ''. '' (take 3 sentences) @ ''.''
      in \<lparr>ar_success = True,
          ar_analysis = \<lparr>
            an_summary = ''This document contains approximately '' @ show_nat wordCount @
                         '' words. '' @ firstSentences,
            an_explanation = ''This appears to be study material related to: '' @ userPrompt @
              ''. The content covers various topics that would benefit from AI analysis. Please configure the GEMINI_API_KEY to get detailed AI-powered analysis.'',
            an_keyPoints = [''Content extracted from uploaded image'',
                            ''Document contains '' @ show_nat wordCount @ '' words'',
                            ''AI analysis requires Gemini API configuration'',
                            ''Manual review recommended for detailed understanding''],
            an_concepts = [''Study Material'', ''Content Analysis'', ''Educational Content''],
            an_searchKeywords = [''study'', ''education'', ''learning'', ''tutorial'', ''explanation'']\<rparr>\<rparr>)"

definition clean_response :: "string \<Rightarrow> string" where
  \<comment> \<open>the first two statements of both parsers: trim, then remove the code fences\<close>
  "clean_response text = remove_fence ''```'' (remove_fence ''```json'' (trim text))"

definition parseAnalysisResponse ::
  "(string \<Rightarrow> parsed_analysis option) \<Rightarrow> string \<Rightarrow> analysis_result" where
  "parseAnalysisResponse JSON_parse text =
     (case (case json_span (clean_response text) of None \<Rightarrow> None
            | Some jsonStr \<Rightarrow> JSON_parse jsonStr) of
        Some parsed \<Rightarrow>
          \<lparr>ar_success = True,
           ar_analysis = \<lparr>
             an_summary = or_default (p_summary parsed) ''Content analysis completed.'',
             an_explanation = or_default (p_explanation parsed)
                                ''Analysis provided based on the uploaded content.'',
             an_keyPoints = (case p_keyPoints parsed of Some a \<Rightarrow> a
                             | None \<Rightarrow> [''Analysis completed successfully'']),
             an_concepts = (case p_concepts parsed of Some a \<Rightarrow> a
                            | None \<Rightarrow> [''Study material analysis'']),
             an_searchKeywords = (case p_searchKeywords parsed of Some a \<Rightarrow> a
                                  | None \<Rightarrow> [''study'', ''education'', ''learning''])\<rparr>\<rparr>
      | None \<Rightarrow>
          \<lparr>ar_success = True,
           ar_analysis = \<lparr>
             an_summary = or_default (extractSection text ''summary'')
                            ''AI analysis completed based on your uploaded content.'',
             an_explanation = or_default (extractSection text ''explanation'')
                                (substring0 500 text @ ''...''),
             an_keyPoints = (case extractArraySection text ''keyPoints'' of Some a \<Rightarrow> a
                             | None \<Rightarrow> [''Content has been analyzed'', ''Key information extracted'',
                                         ''Study material processed'']),
             an_concepts = (case extractArraySection text ''concepts'' of Some a \<Rightarrow> a
                            | None \<Rightarrow> [''Study Material'', ''Educational Content'']),
             an_searchKeywords = (case extractArraySection text ''searchKeywords'' of Some a \<Rightarrow> a
                                  | None \<Rightarrow> [''study'', ''education'', ''learning'', ''tutorial''])\<rparr>\<rparr>)"

definition analyzeContent ::
  "bool \<Rightarrow> string outcome \<Rightarrow> (string \<Rightarrow> parsed_analysis option) \<Rightarrow> string \<Rightarrow> string \<Rightarrow>
   analysis_result" where
  "analyzeContent isConfigured generateContent JSON_parse extractedText userPrompt =
     (if \<not> isConfigured then fallbackAnalysis extractedText userPrompt
      else case generateContent of
        Threw \<Rightarrow> fallbackAnalysis extractedText userPrompt
      | Returned text \<Rightarrow> parseAnalysisResponse JSON_parse text)"

definition parse_catch_questions :: "question list" where
  \<comment> \<open>the questions of the \<open>catch\<close> branch of \<open>parseQuizResponse\<close>\<close>
  "parse_catch_questions =
     [\<lparr>q_type = ''short_answer'',
       q_question = ''What are the main topics covered in this study material?'',
       q_options = None,
       q_correctAnswer = ''Based on the uploaded content, identify and explain the key topics and concepts.'',
       q_explanation = ''This question helps review the overall content and main themes.''\<rparr>,
      \<lparr>q_type = ''flashcard'',
       q_question = ''Key Concept Review'',
       q_options = None,
       q_correctAnswer = ''Review and memorize the most important points from your study material'',
       q_explanation = ''Use this to test your memory of crucial information.''\<rparr>,
      \<lparr>q_type = ''mcq'',
       q_question = ''Which of these best describes your study material?'',
       q_options = Some [''Educational content requiring analysis'', ''Random text'',
                         ''Non-academic material'', ''Empty document''],
       q_correctAnswer = ''Educational content requiring analysis'',
       q_explanation = ''Your uploaded material appears to contain educational content suitable for study.''\<rparr>]"

definition clean_question :: "parsed_question \<Rightarrow> question" where
  \<comment> \<open>the function mapped over the questions that pass the filter\<close>
  "clean_question q =
     \<lparr>q_type = or_default (pq_type q) [],
      q_question = or_default (pq_question q) [],
      q_options = pq_options q,
      q_correctAnswer = or_default (pq_correctAnswer q) [],
      q_explanation = or_default (pq_explanation q) ''No explanation provided''\<rparr>"

definition parseQuizResponse ::
  "(string \<Rightarrow> parsed_question option list option option) \<Rightarrow> string \<Rightarrow> quiz_result" where
  "parseQuizResponse JSON_parse text =
     (case (case json_span (clean_response text) of None \<Rightarrow> None
            | Some jsonStr \<Rightarrow> JSON_parse jsonStr) of
        None \<Rightarrow> \<lparr>qr_success = True, qr_questions = parse_catch_questions\<rparr>
      | Some None \<Rightarrow> \<lparr>qr_success = True, qr_questions = []\<rparr>
      | Some (Some qs) \<Rightarrow>
          (case those qs of
             None \<Rightarrow> \<lparr>qr_success = True, qr_questions = parse_catch_questions\<rparr>
           | Some objs \<Rightarrow>
               \<lparr>qr_success = True,
                qr_questions = map clean_question
                  (filter (\<lambda>q. truthy (pq_question q) \<and> truthy (pq_correctAnswer q) \<and>
                               truthy (pq_type q)) objs)\<rparr>))"

definition fallbackQuizGeneration :: "string option \<Rightarrow> string \<Rightarrow> quiz_result" where
  "fallbackQuizGeneration extractedText userPrompt =
     \<lparr>qr_success = True,
      qr_questions =
        [\<lparr>q_type = ''short_answer'',
          q_question = ''What are the main topics covered in this study material?'',
          q_options = None,
          q_correctAnswer = ''Based on the uploaded content and the user request: '' @ userPrompt,
          q_explanation = ''This question helps identify key themes and concepts from the material.''\<rparr>,
         \<lparr>q_type = ''flashcard'',
          q_question = ''Key Concept Review'',
          q_options = None,
          q_correctAnswer = ''Review the main points from your uploaded study material'',
          q_explanation = ''Use this flashcard to test your memory of important concepts.''\<rparr>,
         \<lparr>q_type = ''mcq'',
          q_question = ''What type of analysis was requested for this material?'',
          q_options = Some [userPrompt, ''Mathematical calculation'', ''Language translation'',
                            ''Image editing''],
          q_correctAnswer = userPrompt,
          q_explanation = ''This question relates to your specific request for content analysis.''\<rparr>]\<rparr>"

definition generateQuizQuestions ::
  "bool \<Rightarrow> string outcome \<Rightarrow> (string \<Rightarrow> parsed_question option list option option) \<Rightarrow>
   string option \<Rightarrow> string \<Rightarrow> quiz_result" where
  \<comment> \<open>\<open>extractedText\<close> may be \<open>undefined\<close>: quiz regeneration passes the stored field\<close>
  "generateQuizQuestions isConfigured generateContent JSON_parse extractedText userPrompt =
     (if \<not> isConfigured then fallbackQuizGeneration extractedText userPrompt
      else case generateContent of
        Threw \<Rightarrow> fallbackQuizGeneration extractedText userPrompt
      | Returned text \<Rightarrow> parseQuizResponse JSON_parse text)"

datatype role = User | Assistant

record message =
  m_role :: role
  m_content :: string
  m_timestamp :: nat

definition answerQuestion ::
  "bool \<Rightarrow> string outcome \<Rightarrow> string \<Rightarrow> string \<Rightarrow> message list \<Rightarrow> answer_result" where
  "answerQuestion isConfigured generateContent question documentContent chatHistory =
     (if \<not> isConfigured
      then \<lparr>as_success = True,
            as_answer = ''I apologize, but the AI analysis service is not currently configured. Please set up the GEMINI_API_KEY environment variable to enable AI-powered chat functionality.''\<rparr>
      else case generateContent of
        Threw \<Rightarrow>
          \<lparr>as_success = True,
           as_answer = ''I'' @ [CHR 0x27] @ ''m sorry, I'' @ [CHR 0x27] @ ''m having trouble processing your question right now. Please try again or rephrase your question.''\<rparr>
      | Returned text \<Rightarrow> \<lparr>as_success = True, as_answer = trim text\<rparr>)"

section \<open>Numbers and sorting\<close>

text \<open>
  A JavaScript number is \<open>NaN\<close> or a real number: the rounding of doubles is not modelled.
  \<open>Array.prototype.sort\<close> is stable and counts a comparator result \<open>NaN\<close> as \<open>+0\<close>; it is
  modelled as an insertion sort, which computes the stable ordering whenever the comparator
  is a consistent one. For a comparator that is not, the language leaves the order to the
  implementation; the model then keeps an element before every later element with which
  its comparison counts as zero.
\<close>

datatype number = NaN | Num real

fun num_add :: "number \<Rightarrow> number \<Rightarrow> number" where
  "num_add (Num a) (Num b) = Num (a + b)"
| "num_add _ _ = NaN"

fun num_sub :: "number \<Rightarrow> number \<Rightarrow> number" where
  "num_sub (Num a) (Num b) = Num (a - b)"
| "num_sub _ _ = NaN"

fun num_div :: "number \<Rightarrow> real \<Rightarrow> number" where
  \<comment> \<open>division by a non-zero literal\<close>
  "num_div (Num a) d = Num (a / d)"
| "num_div NaN d = NaN"

fun num_min :: "number \<Rightarrow> number \<Rightarrow> number" where
  \<comment> \<open>\<open>Math.min\<close>\<close>
  "num_min (Num a) (Num b) = Num (min a b)"
| "num_min _ _ = NaN"

fun num_ge :: "number \<Rightarrow> number \<Rightarrow> bool" where
  \<comment> \<open>\<open>a >= b\<close>, false when either side is \<open>NaN\<close>\<close>
  "num_ge (Num a) (Num b) = (a \<ge> b)"
| "num_ge _ _ = False"

fun positive :: "number \<Rightarrow> bool" where
  \<comment> \<open>the comparator says that the first argument goes after the second\<close>
  "positive (Num a) = (a > 0)"
| "positive NaN = False"

fun insert_by :: "('a \<Rightarrow> 'a \<Rightarrow> number) \<Rightarrow> 'a \<Rightarrow> 'a list \<Rightarrow> 'a list" where
  "insert_by cmp x [] = [x]"
| "insert_by cmp x (y # ys) = (if positive (cmp x y) then y # insert_by cmp x ys else x # y # ys)"

fun js_sort :: "('a \<Rightarrow> 'a \<Rightarrow> number) \<Rightarrow> 'a list \<Rightarrow> 'a list" where
  \<comment> \<open>\<open>xs.sort(cmp)\<close>\<close>
  "js_sort cmp [] = []"
| "js_sort cmp (x # xs) = insert_by cmp x (js_sort cmp xs)"

fun find_first :: "('a \<Rightarrow> bool) \<Rightarrow> 'a list \<Rightarrow> 'a option" where
  \<comment> \<open>\<open>xs.find(p)\<close>\<close>
  "find_first p [] = None"
| "find_first p (x # xs) = (if p x then Some x else find_first p xs)"

section \<open>Video-search adapter (services/youtubeService.js)\<close>

text \<open>
  The answers of the two HTTP requests are inputs of the model: a request throws, or returns
  a body whose \<open>items\<close> may be missing. A search item carries its video id and snippet, a
  statistics item its id, its optional counts (decimal strings in the API, read here as natural
  numbers) and the duration of its content details.
\<close>

record search_item =
  i_videoId :: string
  i_title :: string
  i_channelTitle :: string
  i_description :: string
  i_publishedAt :: nat
  i_thumbnail_medium :: "string option"
  i_thumbnail_default :: "string option"

record stat_item =
  s_id :: string
  s_viewCount :: "nat option"
  s_likeCount :: "nat option"
  s_duration :: "string option"

record video =
  yt_title :: string
  yt_videoId :: string
  yt_channelTitle :: string
  yt_viewCount :: number
  yt_likeCount :: "number option"
  yt_publishedAt :: nat
  yt_thumbnailUrl :: "string option"
  yt_description :: string
  yt_duration :: "string option"
  yt_url :: string
  yt_embedUrl :: string

record video_result =
  y_success :: bool
  y_videos :: "video list"
  y_error :: "string option"

definition parseInt :: "nat option \<Rightarrow> number" where
  \<comment> \<open>\<open>parseInt\<close> of an optional decimal string: \<open>NaN\<close> when the string is missing\<close>
  "parseInt v = (case v of None \<Rightarrow> NaN | Some n \<Rightarrow> Num (real n))"

definition parseInt_or_0 :: "nat option \<Rightarrow> number" where
  \<comment> \<open>\<open>parseInt(v || '0')\<close>\<close>
  "parseInt_or_0 v = (case v of None \<Rightarrow> Num 0 | Some n \<Rightarrow> Num (real n))"

definition hex_digit :: "nat \<Rightarrow> char" where
  "hex_digit n = (if n < 10 then char_of (48 + n) else char_of (55 + n))"

definition percent :: "nat \<Rightarrow> string" where
  "percent b = [CHR ''%'', hex_digit (b div 16), hex_digit (b mod 16)]"

definition unreserved :: "char \<Rightarrow> bool" where
  "unreserved c =
     (let n = (of_char c :: nat)
      in (65 \<le> n \<and> n \<le> 90) \<or> (97 \<le> n \<and> n \<le> 122) \<or> (48 \<le> n \<and> n \<le> 57) \<or>
         c \<in> set (''-_.!~*()'' @ [CHR 0x27]))"

definition encodeURIComponent :: "string \<Rightarrow> string" where
  \<comment> \<open>every other character becomes the escaped bytes of its UTF-8 encoding\<close>
  "encodeURIComponent s =
     concat (map (\<lambda>c. let n = (of_char c :: nat)
                      in if unreserved c then [c]
                         else if n < 128 then percent n
                         else percent (192 + n div 64) @ percent (128 + n mod 64)) s)"

definition getFallbackVideos :: "nat \<Rightarrow> string list \<Rightarrow> video list" where
  "getFallbackVideos now keywords =
     (let searchTerm = template (case keywords of [] \<Rightarrow> None | k # ks \<Rightarrow> Some k)
      in [\<lparr>yt_title = ''Learn about '' @ searchTerm,
           yt_videoId = ''fallback'',
           yt_channelTitle = ''Educational Content'',
           yt_viewCount = Num 0,
           yt_likeCount = None,
           yt_publishedAt = now,
           yt_thumbnailUrl = Some [],
           yt_description = ''YouTube API temporarily unavailable'',
           yt_duration = None,
           yt_url = ''https://www.youtube.com/results?search_query='' @ encodeURIComponent searchTerm,
           yt_embedUrl = []\<rparr>])"

definition videosWithStats :: "search_item list \<Rightarrow> stat_item list \<Rightarrow> video list" where
  \<comment> \<open>the join of \<open>searchVideos\<close>\<close>
  "videosWithStats videos statisticsData =
     map (\<lambda>v. let stats = find_first (\<lambda>stat. s_id stat = i_videoId v) statisticsData
              in \<lparr>yt_title = i_title v,
                  yt_videoId = i_videoId v,
                  yt_channelTitle = i_channelTitle v,
                  yt_viewCount = (case stats of None \<Rightarrow> Num 0 | Some st \<Rightarrow> parseInt (s_viewCount st)),
                  yt_likeCount = None,
                  yt_publishedAt = i_publishedAt v,
                  yt_thumbnailUrl = or_else (i_thumbnail_medium v) (i_thumbnail_default v),
                  yt_description = i_description v,
                  yt_duration = None,
                  yt_url = ''https://www.youtube.com/watch?v='' @ i_videoId v,
                  yt_embedUrl = ''https://www.youtube.com/embed/'' @ i_videoId v\<rparr>) videos"

definition searchVideos ::
  "search_item list option outcome \<Rightarrow> stat_item list option outcome \<Rightarrow> nat \<Rightarrow>
   string list \<Rightarrow> video_result" where
  "searchVideos searchResponse statisticsResponse now keywords =
     (let failed = \<lparr>y_success = False, y_videos = getFallbackVideos now keywords,
                    y_error = Some ''YouTube API temporarily unavailable''\<rparr>
      in case searchResponse of
        Threw \<Rightarrow> failed
      | Returned None \<Rightarrow> \<lparr>y_success = True, y_videos = [], y_error = None\<rparr>
      | Returned (Some []) \<Rightarrow> \<lparr>y_success = True, y_videos = [], y_error = None\<rparr>
      | Returned (Some videos) \<Rightarrow>
          (case statisticsResponse of
             Threw \<Rightarrow> failed
           | Returned None \<Rightarrow> failed
           | Returned (Some statisticsData) \<Rightarrow>
               \<lparr>y_success = True,
                y_videos = js_sort (\<lambda>a b. num_sub (yt_viewCount b) (yt_viewCount a))
                             (videosWithStats videos statisticsData),
                y_error = None\<rparr>))"

definition is_digit :: "char \<Rightarrow> bool" where
  "is_digit c = (48 \<le> (of_char c :: nat) \<and> (of_char c :: nat) \<le> 57)"

definition duration_group :: "char \<Rightarrow> string \<Rightarrow> string \<times> string" where
  \<comment> \<open>an optional group \<open>(\d+U)?\<close>: its digits (empty when the group does not match) and the rest\<close>
  "duration_group u s =
     (let ds = takeWhile is_digit s; r = dropWhile is_digit s
      in if ds \<noteq> [] \<and> r \<noteq> [] \<and> hd r = u then (ds, tl r) else ([], s))"

definition parseDuration :: "string option \<Rightarrow> string" where
  "parseDuration d =
     (case d of
        None \<Rightarrow> ''Unknown''
      | Some dur \<Rightarrow>
          if dur = [] then ''Unknown''
          else (case first_match (\<lambda>s. if starts_with s ''PT'' then Some (drop 2 s) else None) dur of
                  None \<Rightarrow> ''Unknown''
                | Some r \<Rightarrow>
                    (let (hours, r1) = duration_group (CHR ''H'') r;
                         (minutes, r2) = duration_group (CHR ''M'') r1;
                         (seconds, r3) = duration_group (CHR ''S'') r2;
                         result = (if hours \<noteq> [] then hours @ ''h '' else []) @
                                  (if minutes \<noteq> [] then minutes @ ''m '' else []) @
                                  (if seconds \<noteq> [] then seconds @ ''s'' else [])
                     in if trim result = [] then ''Unknown'' else trim result)))"

definition educationalIndicators :: "string list" where
  "educationalIndicators =
     [''tutorial'', ''lesson'', ''explained'', ''learn'', ''education'',
      ''academy'', ''university'', ''school'', ''course'', ''guide'']"

definition is_educational :: "search_item \<Rightarrow> bool" where
  \<comment> \<open>the predicate of the filter in \<open>getEducationalVideos\<close>\<close>
  "is_educational v =
     list_ex (\<lambda>indicator. js_includes (toLowerCase (i_title v)) indicator \<or>
                          js_includes (toLowerCase (i_channelTitle v)) indicator \<or>
                          js_includes (toLowerCase (i_description v)) indicator)
             educationalIndicators"

definition educationalKeywords :: "string list" where
  "educationalKeywords = [''tutorial'', ''lesson'', ''explained'', ''learn'', ''how to'', ''guide'']"

definition calculateEducationalScore :: "video \<Rightarrow> number" where
  "calculateEducationalScore v =
     (let score = num_add (Num 0) (num_min (num_div (yt_viewCount v) 10000) (Num 100));
          titleLower = toLowerCase (yt_title v);
          score = foldl (\<lambda>score keyword.
                     if js_includes titleLower keyword then num_add score (Num 20) else score)
                   score educationalKeywords;
          channelLower = toLowerCase (yt_channelTitle v)
      in if js_includes channelLower ''academy'' \<or> js_includes channelLower ''education'' \<or>
            js_includes channelLower ''university'' \<or> js_includes channelLower ''school''
         then num_add score (Num 30) else score)"

definition processedVideos :: "search_item list \<Rightarrow> stat_item list \<Rightarrow> video list" where
  \<comment> \<open>the join of \<open>getEducationalVideos\<close>\<close>
  "processedVideos educationalVideos statisticsData =
     map (\<lambda>v. let stats = find_first (\<lambda>stat. s_id stat = i_videoId v) statisticsData
              in \<lparr>yt_title = i_title v,
                  yt_videoId = i_videoId v,
                  yt_channelTitle = i_channelTitle v,
                  yt_viewCount = (case stats of None \<Rightarrow> Num 0 | Some st \<Rightarrow> parseInt_or_0 (s_viewCount st)),
                  yt_likeCount = Some (case stats of None \<Rightarrow> Num 0
                                    | Some st \<Rightarrow> parseInt_or_0 (s_likeCount st)),
                  yt_publishedAt = i_publishedAt v,
                  yt_thumbnailUrl = or_else (i_thumbnail_medium v) (i_thumbnail_default v),
                  yt_description = substring0 150 (i_description v),
                  yt_duration = Some (parseDuration (case stats of None \<Rightarrow> Some []
                                                  | Some st \<Rightarrow> s_duration st)),
                  yt_url = ''https://www.youtube.com/watch?v='' @ i_videoId v,
                  yt_embedUrl = ''https://www.youtube.com/embed/'' @ i_videoId v\<rparr>) educationalVideos"

definition getEducationalVideos ::
  "search_item list option outcome \<Rightarrow> stat_item list option outcome \<Rightarrow>
   search_item list option outcome \<Rightarrow> stat_item list option outcome \<Rightarrow> nat \<Rightarrow>
   string list \<Rightarrow> video_result" where
  \<comment> \<open>the last two answers are those of the plain search that the \<open>catch\<close> branch runs\<close>
  "getEducationalVideos searchResponse statisticsResponse plainSearch plainStatistics now keywords =
     (let caught = searchVideos plainSearch plainStatistics now keywords
      in case searchResponse of
        Threw \<Rightarrow> caught
      | Returned None \<Rightarrow> caught
      | Returned (Some videos) \<Rightarrow>
          (let educationalVideos = filter is_educational videos;
               videoIds = join '','' (map i_videoId educationalVideos)
           in if videoIds = [] then \<lparr>y_success = True, y_videos = [], y_error = None\<rparr>
              else case statisticsResponse of
                Threw \<Rightarrow> caught
              | Returned None \<Rightarrow> caught
              | Returned (Some statisticsData) \<Rightarrow>
                  \<lparr>y_success = True,
                   y_videos = take 8 (js_sort
                     (\<lambda>a b. num_sub (calculateEducationalScore b) (calculateEducationalScore a))
                     (processedVideos educationalVideos statisticsData)),
                   y_error = None\<rparr>))"

section \<open>Stored records (unnamed/part_002: the Document model; models/ChatHistory.js)\<close>

text \<open>
  A stored document has the paths of \<open>documentSchema\<close>; a path that the schema does not
  require is optional. The collections are lists in insertion order. The identifier that
  Mongoose gives a new record and the clock are inputs of the model, and so is the test
  whether a string can be cast to an object identifier.
\<close>

record stored_analysis =
  sa_summary :: "string option"
  sa_explanation :: "string option"
  sa_keyPoints :: "string list"
  sa_concepts :: "string list"

record stored_question =
  sq_type :: string
  sq_question :: string
  sq_options :: "string list"
  sq_correctAnswer :: "string option"
  sq_explanation :: "string option"

record stored_video =
  sv_title :: "string option"
  sv_videoId :: "string option"
  sv_channelTitle :: "string option"
  sv_viewCount :: "real option"
  sv_publishedAt :: "nat option"
  sv_thumbnailUrl :: "string option"

record document =
  d_id :: string
  d_documentId :: string
  d_originalImagePath :: string
  d_extractedText :: "string option"
  d_userPrompt :: string
  d_analysis :: stored_analysis
  d_quizQuestions :: "stored_question list"
  d_youtubeVideos :: "stored_video list"
  d_createdAt :: nat
  d_updatedAt :: nat

record chat =
  c_id :: string
  c_documentId :: string
  c_messages :: "message list"
  c_createdAt :: nat
  c_updatedAt :: nat

datatype js_error = TypeError | CastError | ValidationError | DuplicateKey | QueryError

record analysis_data =
  ad_summary :: string
  ad_explanation :: string
  ad_keyPoints :: "string list"
  ad_concepts :: "string list"

record document_data =
  dd_originalImagePath :: string
  dd_extractedText :: "string option"
  dd_userPrompt :: string
  dd_analysis :: analysis_data
  dd_quizQuestions :: "question list"
  dd_youtubeVideos :: "video list"

definition cast_question :: "question \<Rightarrow> stored_question" where
  \<comment> \<open>an array path that is not given is the empty array\<close>
  "cast_question q =
     \<lparr>sq_type = q_type q, sq_question = q_question q,
      sq_options = (case q_options q of None \<Rightarrow> [] | Some os \<Rightarrow> os),
      sq_correctAnswer = Some (q_correctAnswer q), sq_explanation = Some (q_explanation q)\<rparr>"

definition cast_video :: "video \<Rightarrow> stored_video option" where
  \<comment> \<open>the paths outside the schema are dropped; \<open>NaN\<close> is not cast to a Number\<close>
  "cast_video v =
     (case yt_viewCount v of
        NaN \<Rightarrow> None
      | Num n \<Rightarrow> Some \<lparr>sv_title = Some (yt_title v), sv_videoId = Some (yt_videoId v),
                      sv_channelTitle = Some (yt_channelTitle v), sv_viewCount = Some n,
                      sv_publishedAt = Some (yt_publishedAt v), sv_thumbnailUrl = yt_thumbnailUrl v\<rparr>)"

definition valid_question :: "stored_question \<Rightarrow> bool" where
  \<comment> \<open>\<open>type\<close> is required and one of the enumeration, \<open>question\<close> is required\<close>
  "valid_question q =
     (sq_type q \<in> set [''mcq'', ''short_answer'', ''flashcard''] \<and> sq_question q \<noteq> [])"

definition validate :: "document \<Rightarrow> bool" where
  "validate d =
     (d_documentId d \<noteq> [] \<and> d_originalImagePath d \<noteq> [] \<and> d_userPrompt d \<noteq> [] \<and>
      list_all valid_question (d_quizQuestions d))"

definition new_Document :: "string \<Rightarrow> string \<Rightarrow> nat \<Rightarrow> document_data \<Rightarrow> js_error + document" where
  \<comment> \<open>\<open>new Document(documentData)\<close>: the defaults of the schema and the casts\<close>
  "new_Document newId newDocumentId now documentData =
     (case those (map cast_video (dd_youtubeVideos documentData)) of
        None \<Rightarrow> Inl ValidationError
      | Some videos \<Rightarrow>
          Inr \<lparr>d_id = newId, d_documentId = newDocumentId,
               d_originalImagePath = dd_originalImagePath documentData,
               d_extractedText = dd_extractedText documentData,
               d_userPrompt = dd_userPrompt documentData,
               d_analysis = \<lparr>sa_summary = Some (ad_summary (dd_analysis documentData)),
                              sa_explanation = Some (ad_explanation (dd_analysis documentData)),
                              sa_keyPoints = ad_keyPoints (dd_analysis documentData),
                              sa_concepts = ad_concepts (dd_analysis documentData)\<rparr>,
               d_quizQuestions = map cast_question (dd_quizQuestions documentData),
               d_youtubeVideos = videos,
               d_createdAt = now, d_updatedAt = now\<rparr>)"

definition save_new :: "document list \<Rightarrow> nat \<Rightarrow> document \<Rightarrow> js_error + document \<times> document list" where
  \<comment> \<open>\<open>save()\<close> of a new document: the hook sets \<open>updatedAt\<close>, the record is validated and
      inserted; \<open>_id\<close> and \<open>documentId\<close> are unique\<close>
  "save_new store now d =
     (let d' = d\<lparr>d_updatedAt := now\<rparr>
      in if \<not> validate d' then Inl ValidationError
         else if list_ex (\<lambda>x. d_id x = d_id d' \<or> d_documentId x = d_documentId d') store
         then Inl DuplicateKey
         else Inr (d', store @ [d']))"

fun replace_first :: "('a \<Rightarrow> bool) \<Rightarrow> 'a \<Rightarrow> 'a list \<Rightarrow> 'a list" where
  \<comment> \<open>the update of the one record that a filter selects\<close>
  "replace_first p y [] = []"
| "replace_first p y (x # xs) = (if p x then y # xs else x # replace_first p y xs)"

definition save_existing :: "document list \<Rightarrow> nat \<Rightarrow> document \<Rightarrow> js_error + document \<times> document list" where
  \<comment> \<open>\<open>save()\<close> of a document that was read from the collection: the hook sets
      \<open>updatedAt\<close>, the record is validated and the stored record of that \<open>_id\<close> is updated\<close>
  "save_existing store now d =
     (let d' = d\<lparr>d_updatedAt := now\<rparr>
      in if \<not> validate d' then Inl ValidationError
         else Inr (d', replace_first (\<lambda>x. d_id x = d_id d') d' store))"

definition findById :: "(string \<Rightarrow> bool) \<Rightarrow> document list \<Rightarrow> string \<Rightarrow> js_error + document option" where
  "findById isObjectId store ident =
     (if \<not> isObjectId ident then Inl CastError
      else Inr (find_first (\<lambda>d. d_id d = ident) store))"

definition findOne_chat :: "chat list \<Rightarrow> string \<Rightarrow> chat option" where
  \<comment> \<open>\<open>ChatHistory.findOne({ documentId })\<close>\<close>
  "findOne_chat chats ident = find_first (\<lambda>c. c_documentId c = ident) chats"

section \<open>Response envelope (utils/responseFormatter.js)\<close>

text \<open>
  The time stamp of the envelope is left out. An error message that comes from a caught
  exception is modelled by the kind of the exception.
\<close>

record 'a envelope =
  e_success :: bool
  e_message :: string
  e_data :: "'a option"
  e_error :: "js_error option"

definition formatResponse :: "bool \<Rightarrow> string \<Rightarrow> 'a option \<Rightarrow> js_error option \<Rightarrow> 'a envelope" where
  "formatResponse success message data error =
     \<lparr>e_success = success, e_message = message, e_data = data,
      e_error = (if error \<noteq> None \<and> \<not> success then error else None)\<rparr>"

datatype text_option = Align string | Continued bool | Indent nat

datatype pdf_op = FontSize nat | Font string | Text string "text_option list" | MoveDown real

datatype 'a response = Json nat "'a envelope" | Pdf string "pdf_op list"

section \<open>Document pipeline (unnamed/part_004: the document controller)\<close>

record upload_request =
  file_path :: "string option"
  prompt :: "string option"

record upload_data =
  u_documentId :: string
  u_analysis :: stored_analysis
  u_quizQuestions :: "stored_question list"
  u_youtubeVideos :: "stored_video list"
  u_createdAt :: nat

record providers =
  visionConfigured :: bool
  w_documentTextDetection :: "fullTextAnnotation option outcome"
  w_textDetection :: "annotation list option outcome"
  geminiConfigured :: bool
  w_analysisContent :: "string outcome"
  w_quizContent :: "string outcome"
  w_JSON_parse_analysis :: "string \<Rightarrow> parsed_analysis option"
  w_JSON_parse_quiz :: "string \<Rightarrow> parsed_question option list option option"
  w_educationalSearch :: "search_item list option outcome"
  w_educationalStatistics :: "stat_item list option outcome"
  w_plainSearch :: "search_item list option outcome"
  w_plainStatistics :: "stat_item list option outcome"
  w_now :: nat
  w_newId :: string
  w_newDocumentId :: string

definition uploadAndAnalyze ::
  "providers \<Rightarrow> document list \<Rightarrow> upload_request \<Rightarrow> upload_data response \<times> document list" where
  "uploadAndAnalyze w store req =
     (case file_path req of
        None \<Rightarrow> (Json 400 (formatResponse False ''No image file provided'' None None), store)
      | Some imagePath \<Rightarrow>
     if \<not> truthy (prompt req)
     then (Json 400 (formatResponse False ''User prompt is required'' None None), store)
     else
       let userPrompt = or_default (prompt req) [];
           visionResult = detectDocumentStructure (visionConfigured w)
                            (w_documentTextDetection w) (w_textDetection w) imagePath
       in if \<not> v_success visionResult
          then (Json 500 (formatResponse False ''Failed to extract text from image'' None None), store)
          else
       case or_else (v_structuredText visionResult) (v_extractedText visionResult) of
         None \<Rightarrow> (Json 500 (formatResponse False ''Internal server error'' None (Some TypeError)), store)
       | Some extractedText \<Rightarrow>
       let analysisResult = analyzeContent (geminiConfigured w) (w_analysisContent w)
                              (w_JSON_parse_analysis w) extractedText userPrompt
       in if \<not> ar_success analysisResult
          then (Json 500 (formatResponse False ''Failed to analyze content'' None None), store)
          else
       let quizResult = generateQuizQuestions (geminiConfigured w) (w_quizContent w)
                          (w_JSON_parse_quiz w) (Some extractedText) userPrompt;
           searchKeywords = an_searchKeywords (ar_analysis analysisResult);
           youtubeResult = getEducationalVideos (w_educationalSearch w) (w_educationalStatistics w)
                             (w_plainSearch w) (w_plainStatistics w) (w_now w) searchKeywords;
           documentData =
             \<lparr>dd_originalImagePath = imagePath,
              dd_extractedText = None,
              dd_userPrompt = userPrompt,
              dd_analysis =
                \<lparr>ad_summary = an_summary (ar_analysis analysisResult),
                 ad_explanation = an_explanation (ar_analysis analysisResult),
                 ad_keyPoints = an_keyPoints (ar_analysis analysisResult),
                 ad_concepts = an_concepts (ar_analysis analysisResult)\<rparr>,
              dd_quizQuestions = qr_questions quizResult,
              dd_youtubeVideos = y_videos youtubeResult\<rparr>
       in case new_Document (w_newId w) (w_newDocumentId w) (w_now w) documentData of
            Inl e \<Rightarrow> (Json 500 (formatResponse False ''Internal server error'' None (Some e)), store)
          | Inr document \<Rightarrow>
              (case save_new store (w_now w) document of
                 Inl e \<Rightarrow> (Json 500 (formatResponse False ''Internal server error'' None (Some e)), store)
               | Inr (saved, store') \<Rightarrow>
                   (Json 200 (formatResponse True ''Document processed successfully''
                      (Some \<lparr>u_documentId = d_id saved, u_analysis = d_analysis saved,
                             u_quizQuestions = d_quizQuestions saved,
                             u_youtubeVideos = d_youtubeVideos saved,
                             u_createdAt = d_createdAt saved\<rparr>) None), store')))"

record list_item =
  li_id :: string
  li_userPrompt :: string
  li_summary :: string
  li_createdAt :: nat
  li_textPreview :: string

record pagination =
  currentPage :: int
  totalPages :: int
  totalCount :: nat
  hasNext :: bool
  hasPrev :: bool

record list_data =
  l_documents :: "list_item list"
  l_pagination :: pagination

definition or_int :: "int option \<Rightarrow> int \<Rightarrow> int" where
  \<comment> \<open>\<open>parseInt(q) || d\<close>: the parsed query value is \<open>None\<close> when it is \<open>NaN\<close>\<close>
  "or_int v d = (case v of None \<Rightarrow> d | Some n \<Rightarrow> if n = 0 then d else n)"

definition ceil_div :: "nat \<Rightarrow> int \<Rightarrow> int" where
  \<comment> \<open>\<open>Math.ceil(total / limit)\<close> for a limit that is not zero\<close>
  "ceil_div n limit = \<lceil>real n / real_of_int limit\<rceil>"

definition skip_limit :: "int \<Rightarrow> int \<Rightarrow> 'a list \<Rightarrow> js_error + 'a list" where
  \<comment> \<open>\<open>.skip(skip).limit(limit)\<close>: the server refuses a negative skip; a negative limit
      counts as its absolute value and a limit of zero as none\<close>
  "skip_limit skip limit xs =
     (if skip < 0 then Inl QueryError
      else if limit = 0 then Inr (drop (nat skip) xs)
      else Inr (take (nat \<bar>limit\<bar>) (drop (nat skip) xs)))"

definition newest_first :: "('a \<Rightarrow> nat) \<Rightarrow> 'a list \<Rightarrow> 'a list" where
  \<comment> \<open>\<open>.sort({ key: -1 })\<close>; records with equal keys keep the stored order\<close>
  "newest_first key xs = js_sort (\<lambda>a b. Num (real (key b) - real (key a))) xs"

definition list_item_of :: "document \<Rightarrow> list_item option" where
  \<comment> \<open>the function mapped over the page; \<open>substring\<close> of \<open>undefined\<close> throws\<close>
  "list_item_of doc =
     (case d_extractedText doc of
        None \<Rightarrow> None
      | Some text \<Rightarrow>
          Some \<lparr>li_id = d_id doc, li_userPrompt = d_userPrompt doc,
                li_summary = or_default (sa_summary (d_analysis doc)) ''No summary available'',
                li_createdAt = d_createdAt doc,
                li_textPreview = substring0 100 text @ ''...''\<rparr>)"

definition getAllDocuments :: "document list \<Rightarrow> int option \<Rightarrow> int option \<Rightarrow> list_data response" where
  "getAllDocuments store query_page query_limit =
     (let page = or_int query_page 1;
          limit = or_int query_limit 10;
          skip = (page - 1) * limit;
          failure = Json 500 (formatResponse False ''Failed to retrieve documents'' None None)
      in case skip_limit skip limit (newest_first d_createdAt store) of
           Inl e \<Rightarrow> failure
         | Inr documents \<Rightarrow>
             (let totalDocuments = length store
              in case those (map list_item_of documents) of
                   None \<Rightarrow> failure
                 | Some items \<Rightarrow>
                     Json 200 (formatResponse True ''Documents retrieved successfully''
                       (Some \<lparr>l_documents = items,
                              l_pagination =
                                \<lparr>currentPage = page,
                                 totalPages = ceil_div totalDocuments limit,
                                 totalCount = totalDocuments,
                                 hasNext = (page < ceil_div totalDocuments limit),
                                 hasPrev = (page > 1)\<rparr>\<rparr>) None)))"

definition regenerateQuestions ::
  "(string \<Rightarrow> bool) \<Rightarrow> providers \<Rightarrow> document list \<Rightarrow> string \<Rightarrow>
   stored_question list response \<times> document list" where
  "regenerateQuestions isObjectId w store ident =
     (if ident = [] then (Json 400 (formatResponse False ''Document ID is required'' None None), store)
      else case findById isObjectId store ident of
        Inl e \<Rightarrow> (Json 500 (formatResponse False ''Failed to regenerate questions'' None None), store)
      | Inr None \<Rightarrow> (Json 404 (formatResponse False ''Document not found'' None None), store)
      | Inr (Some document) \<Rightarrow>
          (let quizResult = generateQuizQuestions (geminiConfigured w) (w_quizContent w)
                              (w_JSON_parse_quiz w) (d_extractedText document) (d_userPrompt document);
               document = document\<lparr>d_quizQuestions := map cast_question (qr_questions quizResult)\<rparr>;
               document = document\<lparr>d_updatedAt := w_now w\<rparr>
           in case save_existing store (w_now w) document of
                Inl e \<Rightarrow> (Json 500 (formatResponse False ''Failed to regenerate questions'' None None), store)
              | Inr (saved, store') \<Rightarrow>
                  (Json 200 (formatResponse True ''Quiz questions regenerated successfully''
                     (Some (d_quizQuestions saved)) None), store')))"

section \<open>Chat list (controllers/chatController.js)\<close>

record chat_item =
  ci_chatId :: string
  ci_documentId :: "string option"
  ci_documentSummary :: string
  ci_userPrompt :: string
  ci_messageCount :: nat
  ci_lastMessage :: string
  ci_lastUpdated :: nat
  ci_createdAt :: nat

record chats_data =
  l_chats :: "chat_item list"
  l_chat_pagination :: pagination

definition chat_item_of :: "document list \<Rightarrow> chat \<Rightarrow> chat_item" where
  \<comment> \<open>\<open>populate\<close> puts the document of the chat, or \<open>null\<close>, in place of its identifier\<close>
  "chat_item_of store c =
     (let populated = find_first (\<lambda>d. d_id d = c_documentId c) store
      in \<lparr>ci_chatId = c_id c,
          ci_documentId = map_option d_id populated,
          ci_documentSummary =
            or_default (case populated of None \<Rightarrow> None | Some d \<Rightarrow> sa_summary (d_analysis d))
              ''No summary'',
          ci_userPrompt =
            or_default (case populated of None \<Rightarrow> None | Some d \<Rightarrow> Some (d_userPrompt d))
              ''No prompt'',
          ci_messageCount = length (c_messages c),
          ci_lastMessage =
            (if length (c_messages c) > 0
             then substring0 100 (m_content (last (c_messages c))) @ ''...''
             else ''No messages''),
          ci_lastUpdated = c_updatedAt c,
          ci_createdAt = c_createdAt c\<rparr>)"

definition getAllChats ::
  "document list \<Rightarrow> chat list \<Rightarrow> int option \<Rightarrow> int option \<Rightarrow> chats_data response" where
  "getAllChats store chat_store query_page query_limit =
     (let page = or_int query_page 1;
          limit = or_int query_limit 10;
          skip = (page - 1) * limit
      in case skip_limit skip limit (newest_first c_updatedAt chat_store) of
           Inl e \<Rightarrow> Json 500 (formatResponse False ''Failed to retrieve chat list'' None None)
         | Inr chats \<Rightarrow>
             (let totalChats = length chat_store
              in Json 200 (formatResponse True ''Chat list retrieved successfully''
                   (Some \<lparr>l_chats = map (chat_item_of store) chats,
                          l_chat_pagination =
                            \<lparr>currentPage = page,
                             totalPages = ceil_div totalChats limit,
                             totalCount = totalChats,
                             hasNext = (page < ceil_div totalChats limit),
                             hasPrev = (page > 1)\<rparr>\<rparr>) None)))"

section \<open>PDF rendering (unnamed/part_005: the PDF generator) and chat export\<close>

text \<open>
  The content of a PDF is the sequence of calls made on the page writer. The bullet and the
  check mark, which lie outside Latin-1, are written as the bytes of their UTF-8 encoding.
\<close>

record export_data =
  ex_document :: document
  ex_chatHistory :: "chat option"
  ex_exportType :: string

definition bullet :: string where
  "bullet = [CHR 0xE2, CHR 0x80, CHR 0xA2]"

definition check_mark :: string where
  "check_mark = [CHR 0xE2, CHR 0x9C, CHR 0x93]"

definition addHeader :: "string \<Rightarrow> pdf_op list" where
  "addHeader t = [FontSize 24, Font ''Helvetica-Bold'', Text t [Align ''center''], MoveDown 2]"

definition quiz_entry :: "nat \<times> stored_question \<Rightarrow> pdf_op list" where
  \<comment> \<open>the body of the iteration of \<open>addContinuousQuiz\<close> for the question at an index\<close>
  "quiz_entry iq =
     (let index = fst iq; question = snd iq
      in [FontSize 13, Font ''Helvetica-Bold'',
          Text (show_nat (index + 1) @ ''. '' @ sq_question question) [],
          FontSize 12, Font ''Helvetica''] @
         (if sq_type question = ''mcq''
          then map (\<lambda>(optIndex, option).
                      Text (''   '' @ [char_of (65 + optIndex)] @ ''. '' @ option @
                            (if Some option = sq_correctAnswer question then '' '' @ check_mark else []))
                           [])
                   (enumerate 0 (sq_options question))
          else [Text (''   Answer: '' @ template (sq_correctAnswer question)) []]) @
         (if truthy (sq_explanation question)
          then [Font ''Helvetica-Oblique'',
                Text (''   Explanation: '' @ template (sq_explanation question)) []]
          else []) @
         [Font ''Helvetica'', MoveDown 0.8])"

definition addContinuousQuiz :: "stored_question list \<Rightarrow> pdf_op list" where
  "addContinuousQuiz questions = concat (map quiz_entry (enumerate 0 questions))"

definition addContinuousVideos :: "stored_video list \<Rightarrow> pdf_op list" where
  \<comment> \<open>a stored video has no path \<open>url\<close>, so the template writes \<open>undefined\<close>\<close>
  "addContinuousVideos videos =
     concat (map (\<lambda>(index, video).
                    [FontSize 12, Font ''Helvetica-Bold'',
                     Text (show_nat (index + 1) @ ''. '' @ template (sv_title video)) [],
                     FontSize 11, Font ''Helvetica'',
                     Text (''   Channel: '' @ template (sv_channelTitle video)) [],
                     Text (''   URL: '' @ template None) [],
                     MoveDown 0.5])
                 (enumerate 0 (take 8 videos)))"

definition addContinuousContent :: "document \<Rightarrow> string \<Rightarrow> pdf_op list" where
  "addContinuousContent document type =
     [FontSize 12, Font ''Helvetica''] @
     (if type = ''complete'' \<or> type = ''summary''
      then
        (if truthy (d_extractedText document)
         then [Text (template (d_extractedText document)) [], MoveDown 1.5] else []) @
        (if truthy (sa_summary (d_analysis document))
         then [FontSize 14, Font ''Helvetica-Bold'', Text ''Summary:'' [Continued False],
               FontSize 12, Font ''Helvetica'',
               Text (template (sa_summary (d_analysis document))) [], MoveDown 1]
         else []) @
        (if length (sa_keyPoints (d_analysis document)) > 0
         then [FontSize 14, Font ''Helvetica-Bold'', Text ''Key Points:'' [Continued False],
               FontSize 12, Font ''Helvetica''] @
              map (\<lambda>point. Text (bullet @ '' '' @ point) [Indent 20])
                  (sa_keyPoints (d_analysis document)) @
              [MoveDown 1]
         else []) @
        (if length (sa_concepts (d_analysis document)) > 0
         then [FontSize 14, Font ''Helvetica-Bold'', Text ''Concepts:'' [Continued False],
               FontSize 12, Font ''Helvetica''] @
              map (\<lambda>concept. Text (bullet @ '' '' @ concept) [Indent 20])
                  (sa_concepts (d_analysis document)) @
              [MoveDown 1]
         else []) @
        (if truthy (sa_explanation (d_analysis document)) \<and> type = ''complete''
         then [FontSize 14, Font ''Helvetica-Bold'', Text ''Detailed Explanation:'' [Continued False],
               FontSize 12, Font ''Helvetica'',
               Text (template (sa_explanation (d_analysis document))) [], MoveDown 1]
         else [])
      else []) @
     (if (type = ''complete'' \<or> type = ''quiz'') \<and> length (d_quizQuestions document) > 0
      then (if type = ''complete''
            then [FontSize 14, Font ''Helvetica-Bold'', Text ''Quiz Questions:'' [Continued False],
                  MoveDown 0.5]
            else []) @
           addContinuousQuiz (d_quizQuestions document)
      else []) @
     (if type = ''complete'' \<and> length (d_youtubeVideos document) > 0
      then [FontSize 14, Font ''Helvetica-Bold'', Text ''Recommended Videos:'' [Continued False],
            MoveDown 0.5] @
           addContinuousVideos (d_youtubeVideos document)
      else [])"

definition generateCompletePDF :: "export_data \<Rightarrow> pdf_op list" where
  "generateCompletePDF data =
     addHeader ''Study Material'' @ addContinuousContent (ex_document data) ''complete''"

definition generateSummaryPDF :: "export_data \<Rightarrow> pdf_op list" where
  "generateSummaryPDF data =
     addHeader ''Study Summary'' @ addContinuousContent (ex_document data) ''summary''"

definition generateQuizPDF :: "export_data \<Rightarrow> pdf_op list" where
  "generateQuizPDF data =
     addHeader ''Quiz Questions'' @ addContinuousContent (ex_document data) ''quiz''"

definition generateNotesPDF :: "export_data \<Rightarrow> pdf_op list" where
  "generateNotesPDF data =
     addHeader ''Study Notes'' @ addContinuousContent (ex_document data) ''summary''"

definition generatePDF :: "export_data \<Rightarrow> pdf_op list" where
  "generatePDF data =
     (if ex_exportType data = ''complete'' then generateCompletePDF data
      else if ex_exportType data = ''summary'' then generateSummaryPDF data
      else if ex_exportType data = ''quiz'' then generateQuizPDF data
      else if ex_exportType data = ''notes'' then generateNotesPDF data
      else generateCompletePDF data)"

definition exportChatHistory ::
  "(string \<Rightarrow> bool) \<Rightarrow> document list \<Rightarrow> chat list \<Rightarrow> nat \<Rightarrow> string \<Rightarrow> unit response" where
  "exportChatHistory isObjectId store chat_store now ident =
     (if ident = [] then Json 400 (formatResponse False ''Document ID is required'' None None)
      else case findById isObjectId store ident of
        Inl e \<Rightarrow> Json 400 (formatResponse False ''Invalid document ID format'' None None)
      | Inr None \<Rightarrow> Json 404 (formatResponse False ''Document not found'' None None)
      | Inr (Some document) \<Rightarrow>
          (case findOne_chat chat_store ident of
             None \<Rightarrow> Json 404 (formatResponse False ''No chat history found for this document'' None None)
           | Some chatHistory \<Rightarrow>
               if length (c_messages chatHistory) = 0
               then Json 404 (formatResponse False ''No chat history found for this document'' None None)
               else Pdf (''chat-history-'' @ ident @ ''-'' @ show_nat now @ ''.pdf'')
                        (generatePDF \<lparr>ex_document = document, ex_chatHistory = Some chatHistory,
                                      ex_exportType = ''chat''\<rparr>)))"

definition transcript_texts :: "chat \<Rightarrow> string list" where
  \<comment> \<open>what a transcript has to show, in the words of the specification: every message\<close>
  "transcript_texts c = map m_content (c_messages c)"

definition pdf_texts :: "pdf_op list \<Rightarrow> string list" where
  \<comment> \<open>the texts written to the page\<close>
  "pdf_texts ops = concat (map (\<lambda>op. case op of Text t _ \<Rightarrow> [t] | _ \<Rightarrow> []) ops)"

section \<open>Notions of the specification\<close>

definition title_keyword_count :: "string \<Rightarrow> nat" where
  \<comment> \<open>how many keywords of the fixed title-keyword list are found in the title\<close>
  "title_keyword_count t =
     length (filter (\<lambda>keyword. js_includes (toLowerCase t) keyword) educationalKeywords)"

definition academic_channel :: "string \<Rightarrow> bool" where
  \<comment> \<open>the channel name contains an academic-institution marker\<close>
  "academic_channel c =
     list_ex (\<lambda>marker. js_includes (toLowerCase c) marker)
       [''academy'', ''education'', ''university'', ''school'']"

definition relevance_score :: "real \<Rightarrow> string \<Rightarrow> string \<Rightarrow> real" where
  \<comment> \<open>the relevance score in the words of the specification\<close>
  "relevance_score views t c =
     min (views / 10000) 100 + 20 * real (title_keyword_count t) +
     (if academic_channel c then 30 else 0)"

definition sorted_descending :: "('a \<Rightarrow> number) \<Rightarrow> 'a list \<Rightarrow> bool" where
  \<comment> \<open>every element is \<open>>=\<close> each later one under the key\<close>
  "sorted_descending key xs = sorted_wrt (\<lambda>a b. num_ge (key a) (key b)) xs"

definition data_of :: "'a response \<Rightarrow> 'a option" where
  \<comment> \<open>the data of a JSON response\<close>
  "data_of r = (case r of Json status e \<Rightarrow> e_data e | Pdf name ops \<Rightarrow> None)"

definition status_of :: "'a response \<Rightarrow> nat" where
  \<comment> \<open>the HTTP status; a PDF is sent with the default status\<close>
  "status_of r = (case r of Json status e \<Rightarrow> status | Pdf name ops \<Rightarrow> 200)"

definition same_but_quiz :: "document \<Rightarrow> document \<Rightarrow> bool" where
  \<comment> \<open>the second document is the first one but for \<open>quizQuestions\<close> and \<open>updatedAt\<close>\<close>
  "same_but_quiz d d' =
     (d' = d\<lparr>d_quizQuestions := d_quizQuestions d', d_updatedAt := d_updatedAt d'\<rparr>)"

section \<open>Example inputs\<close>

definition item :: "string \<Rightarrow> string \<Rightarrow> string \<Rightarrow> search_item" where
  \<comment> \<open>a search item with the given video id, title and channel title\<close>
  "item vid t c =
     \<lparr>i_videoId = vid, i_title = t, i_channelTitle = c, i_description = ''A video'',
      i_publishedAt = 1700000000, i_thumbnail_medium = Some ''m.jpg'',
      i_thumbnail_default = Some ''d.jpg''\<rparr>"

definition stat :: "string \<Rightarrow> nat option \<Rightarrow> stat_item" where
  \<comment> \<open>a statistics item with the given id and optional view count\<close>
  "stat vid views =
     \<lparr>s_id = vid, s_viewCount = views, s_likeCount = None, s_duration = Some ''PT4M13S''\<rparr>"

definition example_document :: document where
  \<comment> \<open>a document as the upload pipeline stores it\<close>
  "example_document =
     \<lparr>d_id = ''d1'', d_documentId = ''x1'', d_originalImagePath = ''uploads/cells.png'',
      d_extractedText = None, d_userPrompt = ''explain mitosis'',
      d_analysis = \<lparr>sa_summary = Some ''Cells divide.'', sa_explanation = Some ''Mitosis has phases.'',
                     sa_keyPoints = [''Prophase''], sa_concepts = [''Biology'']\<rparr>,
      d_quizQuestions =
        [\<lparr>sq_type = ''flashcard'', sq_question = ''Key Concept Review'', sq_options = [],
          sq_correctAnswer = Some ''Review the main points'',
          sq_explanation = Some ''Use this flashcard''\<rparr>],
      d_youtubeVideos = [], d_createdAt = 1700000000, d_updatedAt = 1700000000\<rparr>"

definition example_chat :: chat where
  "example_chat =
     \<lparr>c_id = ''c1'', c_documentId = ''d1'',
      c_messages = [\<lparr>m_role = User, m_content = ''What is mitosis?'', m_timestamp = 1700000050\<rparr>,
                    \<lparr>m_role = Assistant, m_content = ''Mitosis is cell division.'',
                     m_timestamp = 1700000051\<rparr>],
      c_createdAt = 1700000050, c_updatedAt = 1700000051\<rparr>"

definition example_providers :: providers where
  \<comment> \<open>the OCR provider answers with one paragraph; the other providers are unavailable\<close>
  "example_providers =
     \<lparr>visionConfigured = True,
      w_documentTextDetection =
        Returned (Some \<lparr>f_pages = Some [[[[[''Ce'', ''lls''], [''divide.'']]]]], f_text = Some ''Cells divide.''\<rparr>),
      w_textDetection = Threw,
      geminiConfigured = False,
      w_analysisContent = Threw,
      w_quizContent = Threw,
      w_JSON_parse_analysis = (\<lambda>s. None),
      w_JSON_parse_quiz = (\<lambda>s. None),
      w_educationalSearch = Returned (Some []),
      w_educationalStatistics = Threw,
      w_plainSearch = Threw,
      w_plainStatistics = Threw,
      w_now = 1700000000,
      w_newId = ''d1'',
      w_newDocumentId = ''x1''\<rparr>"

definition text_document :: "string \<Rightarrow> nat \<Rightarrow> document" where
  \<comment> \<open>a stored document that has an extracted text, with the given \<open>_id\<close> and creation time\<close>
  "text_document ident created =
     example_document\<lparr>d_id := ident, d_documentId := ident,
                      d_extractedText := Some ''Cells divide.'', d_createdAt := created\<rparr>"

section \<open>Properties of the string operations\<close>


lemma starts_with_iff: "starts_with s k \<longleftrightarrow> (\<exists>ys. s = k @ ys)"
  by (induction s k rule: starts_with.induct) auto

lemma js_includes_iff: "js_includes s k \<longleftrightarrow> (\<exists>xs ys. s = xs @ k @ ys)"
proof (induction s)
  case Nil
  then show ?case by auto
next
  case (Cons c cs)
  show ?case
  proof
    assume "js_includes (c # cs) k"
    then consider "starts_with (c # cs) k" | "js_includes cs k" by auto
    then show "\<exists>xs ys. c # cs = xs @ k @ ys"
    proof cases
      case 1
      then obtain ys where "c # cs = k @ ys" by (auto simp: starts_with_iff)
      then have "c # cs = [] @ k @ ys" by simp
      then show ?thesis by blast
    next
      case 2
      then obtain xs ys where "cs = xs @ k @ ys" using Cons.IH by blast
      then have "c # cs = (c # xs) @ k @ ys" by simp
      then show ?thesis by blast
    qed
  next
    assume "\<exists>xs ys. c # cs = xs @ k @ ys"
    then obtain xs ys where e: "c # cs = xs @ k @ ys" by blast
    show "js_includes (c # cs) k"
    proof (cases xs)
      case Nil
      with e have "starts_with (c # cs) k" by (auto simp: starts_with_iff)
      then show ?thesis by simp
    next
      case (Cons x xs')
      with e have "cs = xs' @ k @ ys" by simp
      then have "js_includes cs k" using Cons.IH by blast
      then show ?thesis by simp
    qed
  qed
qed

lemma length_split_char: "length (split_char d s) = Suc (length (filter (\<lambda>c. c = d) s))"
  by (induction s) (auto split: list.splits)

lemma split_char_single: "split_char d s = [w] \<Longrightarrow> d \<notin> set s \<and> w = s"
proof (induction s arbitrary: w)
  case Nil then show ?case by simp
next
  case (Cons c cs)
  show ?case
  proof (cases "c = d")
    case True
    with Cons.prems have "split_char d cs = []" by simp
    then show ?thesis using length_split_char[of d cs] by simp
  next
    case False
    then obtain w' ws where s: "split_char d cs = w' # ws"
      using length_split_char[of d cs] by (cases "split_char d cs") auto
    with Cons.prems False have "ws = []" "w = c # w'" by auto
    with s Cons.IH[of w'] False show ?thesis by auto
  qed
qed

lemma last_split_char: "last (split_char d s) = rev (takeWhile (\<lambda>c. c \<noteq> d) (rev s))"
proof (induction s)
  case Nil then show ?case by simp
next
  case (Cons c cs)
  have ne: "split_char d cs \<noteq> []" using length_split_char[of d cs] by auto
  show ?case
  proof (cases "c = d")
    case True
    then show ?thesis using Cons ne by (auto simp: takeWhile_append)
  next
    case False
    obtain w ws where s: "split_char d cs = w # ws" using ne by (cases "split_char d cs") auto
    show ?thesis
    proof (cases ws)
      case Nil
      with s have "d \<notin> set cs" "w = cs" using split_char_single[of d cs w] by auto
      then have "takeWhile (\<lambda>c. c \<noteq> d) (rev cs) = rev cs" by (auto intro: takeWhile_eq_all_conv[THEN iffD2])
      with False s Nil \<open>w = cs\<close> show ?thesis by (simp add: takeWhile_append)
    next
      case (Cons a as)
      with s have "length (filter (\<lambda>c. c = d) cs) > 0"
        using length_split_char[of d cs] by fastforce
      then have "d \<in> set cs" by (induction cs) (auto split: if_splits)
      then have "takeWhile (\<lambda>c. c \<noteq> d) (rev cs @ [c]) = takeWhile (\<lambda>c. c \<noteq> d) (rev cs)"
        by (intro takeWhile_append1[of d]) auto
      with s False Cons \<open>last (split_char d cs) = rev (takeWhile (\<lambda>c. c \<noteq> d) (rev cs))\<close>
      show ?thesis by simp
    qed
  qed
qed



lemma replace_runs_keeps: "c \<in> set s \<Longrightarrow> \<not> P c \<Longrightarrow> c \<in> set (replace_runs P r s)"
proof (induction P r s rule: replace_runs.induct)
  case (1 P r) then show ?case by simp
next
  case (2 P r x xs)
  show ?case
  proof (cases "P x")
    case True
    with "2.prems" have "c \<in> set xs" by auto
    with "2.prems" have "c \<in> set (dropWhile P xs)"
      by (induction xs) auto
    with True "2.IH"(1) "2.prems" show ?thesis by simp
  next
    case False
    with "2.IH"(2) "2.prems" show ?thesis by auto
  qed
qed

lemma replace_runs_set: "c \<in> set (replace_runs P r s) \<Longrightarrow> c \<in> set r \<or> (c \<in> set s \<and> \<not> P c)"
proof (induction P r s rule: replace_runs.induct)
  case (1 P r) then show ?case by simp
next
  case (2 P r x xs)
  show ?case
  proof (cases "P x")
    case True
    with "2.prems" have "c \<in> set r \<or> c \<in> set (replace_runs P r (dropWhile P xs))" by auto
    with True "2.IH"(1) have "c \<in> set r \<or> (c \<in> set (dropWhile P xs) \<and> \<not> P c)" by blast
    then show ?thesis using set_dropWhileD[of c P xs] by auto
  next
    case False
    with "2.IH"(2) "2.prems" show ?thesis by auto
  qed
qed

lemma replace_runs_hd:
  "s = [] \<or> \<not> P (hd s) \<Longrightarrow> replace_runs P r s = [] \<or> \<not> P (hd (replace_runs P r s))"
  by (cases s) auto

lemma dropWhile_hd: "dropWhile P s = [] \<or> \<not> P (hd (dropWhile P s))"
  by (induction s) auto

lemma replace_runs_no_double:
  "P r \<Longrightarrow> \<not> js_includes (replace_runs P [r] s) [r, r]"
proof (induction P "[r]" s rule: replace_runs.induct)
  case (1 P) then show ?case by simp
next
  case (2 P x xs)
  show ?case
  proof (cases "P x")
    case True
    have "replace_runs P [r] (dropWhile P xs) = [] \<or> \<not> P (hd (replace_runs P [r] (dropWhile P xs)))"
      using replace_runs_hd[OF dropWhile_hd] .
    then have "\<not> starts_with (replace_runs P [r] (dropWhile P xs)) [r]"
      using \<open>P r\<close> by (cases "replace_runs P [r] (dropWhile P xs)") auto
    with True "2.hyps"(1) \<open>P r\<close> show ?thesis by simp
  next
    case False
    with \<open>P r\<close> have "x \<noteq> r" by auto
    with False "2.hyps"(2) \<open>P r\<close> show ?thesis by simp
  qed
qed

lemma trim_decomp: "\<exists>xs ys. s = xs @ trim s @ ys"
proof -
  have "s = takeWhile js_space s @ dropWhile js_space s" by simp
  moreover have "rev (dropWhile js_space s) =
      takeWhile js_space (rev (dropWhile js_space s)) @ dropWhile js_space (rev (dropWhile js_space s))"
    by simp
  then have "dropWhile js_space s = trim s @ rev (takeWhile js_space (rev (dropWhile js_space s)))"
    unfolding trim_def by (metis rev_append rev_rev_ident)
  ultimately show ?thesis by metis
qed

lemma js_includes_trim: "js_includes (trim s) k \<Longrightarrow> js_includes s k"
proof -
  assume "js_includes (trim s) k"
  then obtain a b where t: "trim s = a @ k @ b" by (auto simp: js_includes_iff)
  obtain xs ys where "s = xs @ trim s @ ys" using trim_decomp by blast
  with t have "s = (xs @ a) @ k @ (b @ ys)" by simp
  then show ?thesis unfolding js_includes_iff by blast
qed

lemma trim_keeps: "c \<in> set s \<Longrightarrow> \<not> js_space c \<Longrightarrow> c \<in> set (trim s)"
proof -
  assume c: "c \<in> set s" "\<not> js_space c"
  have k: "\<And>xs. c \<in> set xs \<Longrightarrow> c \<in> set (dropWhile js_space xs)"
    subgoal for xs using c(2) by (induction xs) auto
    done
  from c(1) have "c \<in> set (rev (dropWhile js_space s))" using k by simp
  then have "c \<in> set (dropWhile js_space (rev (dropWhile js_space s)))" by (rule k)
  then show ?thesis by (simp add: trim_def)
qed

lemma trim_set: "c \<in> set (trim s) \<Longrightarrow> c \<in> set s"
proof -
  assume "c \<in> set (trim s)"
  then have "c \<in> set (dropWhile js_space (rev (dropWhile js_space s)))" by (simp add: trim_def)
  then have "c \<in> set (rev (dropWhile js_space s))" by (rule set_dropWhileD)
  then have "c \<in> set (dropWhile js_space s)" by simp
  then show ?thesis by (rule set_dropWhileD)
qed

lemma trim_idem: "trim (trim s) = trim s"
proof -
  define a where "a = dropWhile js_space s"
  define b where "b = dropWhile js_space (rev a)"
  have t: "trim s = rev b" by (simp add: trim_def a_def b_def)
  have a: "a = [] \<or> \<not> js_space (hd a)" unfolding a_def by (rule dropWhile_hd)
  have b: "b = [] \<or> \<not> js_space (hd b)" unfolding b_def by (rule dropWhile_hd)
  have "dropWhile js_space (rev b) = rev b"
  proof (cases "b = []")
    case True then show ?thesis by simp
  next
    case False
    obtain p where p: "rev a = p @ b" unfolding b_def
      by (metis takeWhile_dropWhile_id)
    with False have "last (rev a) = last b" by simp
    moreover from p False have "a \<noteq> []" by auto
    ultimately have "hd a = last b" by (simp add: last_rev)
    with a \<open>a \<noteq> []\<close> have "\<not> js_space (hd (rev b))" using False by (simp add: hd_rev)
    with False show ?thesis by (cases "rev b") auto
  qed
  moreover have "dropWhile js_space b = b" using b by (cases b) auto
  ultimately have "trim (rev b) = rev b" by (simp add: trim_def)
  then show ?thesis by (simp add: t)
qed

lemma processExtractedText_props:
  assumes "\<exists>c \<in> set raw. \<not> js_space c"
  shows "processExtractedText raw \<noteq> []"
    and "\<not> js_includes (processExtractedText raw) [nl, nl]"
    and "\<not> js_includes (processExtractedText raw) ''  ''"
    and "trim (processExtractedText raw) = processExtractedText raw"
    and "nl \<notin> set (processExtractedText raw)"
proof -
  from assms obtain c where c: "c \<in> set raw" "\<not> js_space c" by blast
  then have ne: "raw \<noteq> []" by auto
  define u where "u = replace_runs js_space '' '' (replace_runs (\<lambda>c. c = nl) [nl] raw)"
  have p: "processExtractedText raw = trim u" using ne by (simp add: processExtractedText_def u_def)
  have "c \<noteq> nl" using c(2) by (auto simp: js_space_def nl_def)
  then have "c \<in> set (replace_runs (\<lambda>c. c = nl) [nl] raw)"
    using c(1) replace_runs_keeps[of c raw "\<lambda>c. c = nl" "[nl]"] by simp
  then have "c \<in> set u"
    unfolding u_def using c(2) replace_runs_keeps[of c _ js_space "'' ''"] by simp
  then have "c \<in> set (trim u)" using c(2) by (rule trim_keeps)
  then show "processExtractedText raw \<noteq> []" unfolding p by auto
  have sp: "js_space CHR 0x20" by (simp add: js_space_def)
  have nlsp: "js_space nl" by (simp add: js_space_def nl_def)
  have "nl \<notin> set u"
  proof
    assume "nl \<in> set u"
    then have "nl \<in> set '' '' \<or> (nl \<in> set (replace_runs (\<lambda>c. c = nl) [nl] raw) \<and> \<not> js_space nl)"
      unfolding u_def by (rule replace_runs_set)
    with nlsp show False by (simp add: nl_def)
  qed
  then show n: "nl \<notin> set (processExtractedText raw)" unfolding p using trim_set by blast
  show "\<not> js_includes (processExtractedText raw) [nl, nl]"
  proof
    assume "js_includes (processExtractedText raw) [nl, nl]"
    then obtain xs ys where "processExtractedText raw = xs @ [nl, nl] @ ys" unfolding js_includes_iff by blast
    then have "nl \<in> set (processExtractedText raw)" by simp
    with n show False by simp
  qed
  have "\<not> js_includes u ''  ''" unfolding u_def using replace_runs_no_double[of js_space "CHR 0x20"] sp by simp
  then show "\<not> js_includes (processExtractedText raw) ''  ''" unfolding p using js_includes_trim by blast
  show "trim (processExtractedText raw) = processExtractedText raw" unfolding p by (rule trim_idem)
qed

section \<open>Properties of sorting\<close>

lemma set_insert_by: "set (insert_by cmp x ys) = insert x (set ys)"
  by (induction ys) auto

lemma set_js_sort: "set (js_sort cmp xs) = set xs"
  by (induction xs) (auto simp: set_insert_by)

lemma length_insert_by: "length (insert_by cmp x ys) = Suc (length ys)"
  by (induction ys) auto

lemma length_js_sort: "length (js_sort cmp xs) = length xs"
  by (induction xs) (auto simp: length_insert_by)

lemma sorted_insert_by:
  assumes "\<And>y. y \<in> set ys \<Longrightarrow> cmp x y = Num (k y - k x)"
    and "sorted_wrt (\<lambda>a b. k a \<ge> k b) ys"
  shows "sorted_wrt (\<lambda>a b. k a \<ge> k b) (insert_by cmp x ys)"
  using assms
proof (induction ys)
  case Nil
  then show ?case by simp
next
  case (Cons y ys)
  have c: "cmp x y = Num (k y - k x)" using Cons.prems(1) by simp
  show ?case
  proof (cases "k y - k x > 0")
    case True
    have "sorted_wrt (\<lambda>a b. k a \<ge> k b) (insert_by cmp x ys)"
      using Cons by simp
    moreover have "\<forall>z \<in> set (insert_by cmp x ys). k y \<ge> k z"
      using Cons.prems(2) True by (auto simp: set_insert_by)
    ultimately show ?thesis using c True by simp
  next
    case False
    then have "\<forall>z \<in> set (y # ys). k x \<ge> k z" using Cons.prems(2) by fastforce
    then show ?thesis using c False Cons.prems(2) by simp
  qed
qed

lemma sorted_js_sort:
  assumes "\<And>a b. a \<in> set xs \<Longrightarrow> b \<in> set xs \<Longrightarrow> cmp a b = Num (k b - k a)"
  shows "sorted_wrt (\<lambda>a b. k a \<ge> k b) (js_sort cmp xs)"
  using assms
proof (induction xs)
  case Nil
  then show ?case by simp
next
  case (Cons x xs)
  have "sorted_wrt (\<lambda>a b. k a \<ge> k b) (js_sort cmp xs)" using Cons by simp
  moreover have "\<And>y. y \<in> set (js_sort cmp xs) \<Longrightarrow> cmp x y = Num (k y - k x)"
    using Cons.prems by (simp add: set_js_sort)
  ultimately show ?case using sorted_insert_by[of "js_sort cmp xs" cmp x k] by simp
qed

lemma sorted_wrt_num_ge:
  assumes "\<And>a. a \<in> set xs \<Longrightarrow> f a = Num (k a)"
    and "sorted_wrt (\<lambda>a b. k a \<ge> k b) xs"
  shows "sorted_wrt (\<lambda>a b. num_ge (f a) (f b)) xs"
  using assms by (induction xs) auto

lemma score_fold:
  "foldl (\<lambda>score keyword. if P keyword then num_add score (Num 20) else score) (Num a) ks
     = Num (a + 20 * real (length (filter P ks)))"
  by (induction ks arbitrary: a) (auto simp: algebra_simps)

section \<open>Properties of the OCR adapter\<close>

lemma pop_split_char: "pop (split_char CHR ''/'' p) = Some (final_component p)"
proof -
  have "split_char CHR ''/'' p \<noteq> []" using length_split_char[of "CHR ''/''" p] by auto
  then show ?thesis
    by (simp add: pop_def final_component_def last_split_char)
qed

lemma fallback_result:
  "v_success (fallbackTextExtraction p) \<and> v_confidence (fallbackTextExtraction p) = 0 \<and>
   v_structuredText (fallbackTextExtraction p) = None \<and>
   (\<exists>t. v_extractedText (fallbackTextExtraction p) = Some t \<and> js_includes t (final_component p))"
proof -
  have "js_includes (fallbackText (Some (final_component p))) (final_component p)"
    unfolding js_includes_iff fallbackText_def template_def
    by (metis append.assoc append_Nil2 option.simps(5))
  then show ?thesis
    by (simp add: fallbackTextExtraction_def Let_def pop_split_char)
qed

text \<open>
  Claim C6. When the OCR provider is not configured, or every call to it throws, both
  operations of the adapter return \<open>success = true\<close>, \<open>confidence = 0\<close> and a placeholder
  text that contains the final component of the image path. Whatever the provider does, the
  adapter's result has \<open>success = true\<close>.
\<close>

theorem ocr_unavailable_placeholder:
  "(\<not> isConfigured \<or> textDetection = Threw \<longrightarrow>
      (let r = extractTextFromImage isConfigured textDetection imagePath
       in v_success r \<and> v_confidence r = 0 \<and>
          (\<exists>t. v_extractedText r = Some t \<and> js_includes t (final_component imagePath)))) \<and>
   (\<not> isConfigured \<or> (documentTextDetection = Threw \<and> textDetection = Threw) \<longrightarrow>
      (let r = detectDocumentStructure isConfigured documentTextDetection textDetection imagePath
       in v_success r \<and> v_confidence r = 0 \<and> v_structuredText r = None \<and>
          (\<exists>t. v_extractedText r = Some t \<and> js_includes t (final_component imagePath)))) \<and>
   v_success (extractTextFromImage isConfigured textDetection imagePath) \<and>
   v_success (detectDocumentStructure isConfigured documentTextDetection textDetection imagePath)"
proof -
  have a: "\<not> isConfigured \<or> textDetection = Threw \<Longrightarrow>
      extractTextFromImage isConfigured textDetection imagePath = fallbackTextExtraction imagePath"
    by (auto simp: extractTextFromImage_def)
  have b: "\<not> isConfigured \<or> (documentTextDetection = Threw \<and> textDetection = Threw) \<Longrightarrow>
      detectDocumentStructure isConfigured documentTextDetection textDetection imagePath
        = fallbackTextExtraction imagePath"
    by (auto simp: detectDocumentStructure_def extractTextFromImage_def)
  have c: "v_success (extractTextFromImage isConfigured textDetection imagePath)"
    using fallback_result[of imagePath]
    by (auto simp: extractTextFromImage_def split: outcome.splits option.splits list.splits)
  have d: "v_success (detectDocumentStructure isConfigured documentTextDetection textDetection imagePath)"
    using fallback_result[of imagePath] c
    by (auto simp: detectDocumentStructure_def split: outcome.splits option.splits)
  show ?thesis using a b c d fallback_result[of imagePath] by (auto simp: Let_def)
qed

theorem ocr_unavailable_placeholder_witness:
  "(let r = detectDocumentStructure False (Returned None) (Returned None) ''uploads/image-17.png''
    in v_success r \<and> v_confidence r = 0 \<and>
       (\<exists>t. v_extractedText r = Some t \<and> js_includes t ''image-17.png'')) \<and>
   (let r = detectDocumentStructure True Threw Threw ''uploads/image-17.png''
    in v_success r \<and> v_confidence r = 0 \<and>
       (\<exists>t. v_extractedText r = Some t \<and> js_includes t ''image-17.png''))"
  using ocr_unavailable_placeholder [of False "Returned None" "''uploads/image-17.png''" "Returned None"]
        ocr_unavailable_placeholder [of True Threw "''uploads/image-17.png''" Threw]
  by (simp add: final_component_def Let_def)

lemma extractTextFromImage_detected:
  "extractTextFromImage True (Returned (Some (d # ds))) imagePath =
     \<lparr>v_success = True, v_structuredText = None,
      v_extractedText = Some (processExtractedText (a_description d)),
      v_rawText = Some (a_description d),
      v_confidence = (case a_confidence d of None \<Rightarrow> 0.8 | Some c \<Rightarrow> if c = 0 then 0.8 else c)\<rparr>"
  by (simp add: extractTextFromImage_def)

text \<open>
  Claim C4, amended. On the plain text-detection path (which \<open>detectDocumentStructure\<close>
  takes when the structured call throws or returns no full-text annotation), a first
  detection whose description holds a character that is not whitespace gives an
  \<open>extractedText\<close> that is not empty, has no two consecutive line breaks, no two consecutive
  spaces and no leading or trailing whitespace. On the structured path the text is trimmed
  and nothing more.
\<close>

theorem ocr_text_normalised:
  "(textDetection = Returned (Some (d # ds)) \<and> (\<exists>c \<in> set (a_description d). \<not> js_space c) \<longrightarrow>
      (\<exists>t. v_extractedText (extractTextFromImage True textDetection imagePath) = Some t \<and>
           t \<noteq> [] \<and> \<not> js_includes t [nl, nl] \<and> \<not> js_includes t ''  '' \<and> trim t = t)) \<and>
   (documentTextDetection = Threw \<or> documentTextDetection = Returned None \<longrightarrow>
      detectDocumentStructure True documentTextDetection textDetection imagePath =
      extractTextFromImage True textDetection imagePath) \<and>
   (documentTextDetection = Returned (Some fta) \<and> f_pages fta = Some ps \<longrightarrow>
      (\<exists>t. v_structuredText
             (detectDocumentStructure True documentTextDetection textDetection imagePath) = Some t \<and>
           trim t = t))"
proof (intro conjI impI)
  assume h: "textDetection = Returned (Some (d # ds)) \<and> (\<exists>c \<in> set (a_description d). \<not> js_space c)"
  then have p: "\<exists>c \<in> set (a_description d). \<not> js_space c" by simp
  from h have "v_extractedText (extractTextFromImage True textDetection imagePath) =
      Some (processExtractedText (a_description d))"
    by (simp add: extractTextFromImage_detected)
  then show "\<exists>t. v_extractedText (extractTextFromImage True textDetection imagePath) = Some t \<and>
           t \<noteq> [] \<and> \<not> js_includes t [nl, nl] \<and> \<not> js_includes t ''  '' \<and> trim t = t"
    using processExtractedText_props[OF p] by simp
next
  assume "documentTextDetection = Threw \<or> documentTextDetection = Returned None"
  then show "detectDocumentStructure True documentTextDetection textDetection imagePath =
      extractTextFromImage True textDetection imagePath"
    by (auto simp: detectDocumentStructure_def)
next
  assume "documentTextDetection = Returned (Some fta) \<and> f_pages fta = Some ps"
  then have "v_structuredText
      (detectDocumentStructure True documentTextDetection textDetection imagePath) =
      Some (trim (structuredTextOf ps))"
    by (simp add: detectDocumentStructure_def)
  then show "\<exists>t. v_structuredText
             (detectDocumentStructure True documentTextDetection textDetection imagePath) = Some t \<and>
           trim t = t"
    by (simp add: trim_idem)
qed

theorem ocr_text_normalised_witness:
  "v_extractedText (extractTextFromImage True
      (Returned (Some [\<lparr>a_description = ''  Cells\<newline>\<newline> divide  '', a_confidence = None\<rparr>]))
      ''uploads/a.png'') = Some ''Cells divide'' \<and>
   detectDocumentStructure True (Returned None)
      (Returned (Some [\<lparr>a_description = ''  Cells\<newline>\<newline> divide  '', a_confidence = None\<rparr>]))
      ''uploads/a.png'' =
   extractTextFromImage True
      (Returned (Some [\<lparr>a_description = ''  Cells\<newline>\<newline> divide  '', a_confidence = None\<rparr>]))
      ''uploads/a.png'' \<and>
   v_structuredText (detectDocumentStructure True
      (Returned (Some \<lparr>f_pages = Some [[[[[''Ce'', ''lls'']]]]], f_text = None\<rparr>))
      Threw ''uploads/a.png'') = Some ''Cells''"
  using ocr_text_normalised [of
      "Returned (Some [\<lparr>a_description = ''  Cells\<newline>\<newline> divide  '', a_confidence = None\<rparr>])"
      "\<lparr>a_description = ''  Cells\<newline>\<newline> divide  '', a_confidence = None\<rparr>" "[]"
      "''uploads/a.png''" "Returned None"]
    ocr_text_normalised [of Threw "\<lparr>a_description = ''Cells'', a_confidence = None\<rparr>" "[]"
      "''uploads/a.png''"
      "Returned (Some \<lparr>f_pages = Some [[[[[''Ce'', ''lls'']]]]], f_text = None\<rparr>)"
      "\<lparr>f_pages = Some [[[[[''Ce'', ''lls'']]]]], f_text = None\<rparr>" "[[[[[''Ce'', ''lls'']]]]]"]
  by (simp add: extractTextFromImage_def detectDocumentStructure_def processExtractedText_def
      structuredTextOf_def paragraphText_def trim_def js_space_def nl_def)

theorem ocr_text_normalised_counterexample:
  "v_structuredText (detectDocumentStructure True
      (Returned (Some \<lparr>f_pages = Some [[[[[''a'']], [[''b'']]]]], f_text = Some ''a b''\<rparr>))
      Threw ''uploads/a.png'') = Some ''a\<newline>\<newline>b'' \<and>
   js_includes ''a\<newline>\<newline>b'' [nl, nl] \<and>
   v_extractedText (extractTextFromImage True
      (Returned (Some [\<lparr>a_description = '' '', a_confidence = None\<rparr>])) ''uploads/a.png'') = Some []"
  by (simp add: extractTextFromImage_def detectDocumentStructure_def processExtractedText_def
      structuredTextOf_def paragraphText_def trim_def js_space_def nl_def)

section \<open>Properties of the video-search adapter\<close>


lemma videosWithStats_viewCount:
  assumes "list_all (\<lambda>st. s_viewCount st \<noteq> None) statisticsData"
    and "v \<in> set (videosWithStats videos statisticsData)"
  shows "\<exists>n. yt_viewCount v = Num n"
proof -
  have "\<And>p st. find_first p statisticsData = Some st \<Longrightarrow> st \<in> set statisticsData"
    subgoal for p st by (induction statisticsData) (auto split: if_splits)
    done
  then have "\<And>p st. find_first p statisticsData = Some st \<Longrightarrow> s_viewCount st \<noteq> None"
    using assms(1) by (auto simp: list_all_iff)
  then show ?thesis using assms(2)
    by (fastforce simp: videosWithStats_def Let_def parseInt_def split: option.splits)
qed

lemma searchVideos_sorted:
  assumes "\<And>statisticsData. statisticsResponse = Returned (Some statisticsData) \<Longrightarrow>
             list_all (\<lambda>st. s_viewCount st \<noteq> None) statisticsData"
    and "y_success (searchVideos searchResponse statisticsResponse now keywords)"
  shows "sorted_descending yt_viewCount
           (y_videos (searchVideos searchResponse statisticsResponse now keywords))"
proof (cases "\<exists>v vs sd. searchResponse = Returned (Some (v # vs)) \<and> statisticsResponse = Returned (Some sd)")
  case True
  then obtain v vs sd where s: "searchResponse = Returned (Some (v # vs))"
    "statisticsResponse = Returned (Some sd)" by blast
  define ws where "ws = videosWithStats (v # vs) sd"
  define k :: "video \<Rightarrow> real" where "k = (\<lambda>x. case yt_viewCount x of Num n \<Rightarrow> n | NaN \<Rightarrow> 0)"
  have n: "\<And>x. x \<in> set ws \<Longrightarrow> yt_viewCount x = Num (k x)"
    unfolding ws_def k_def using videosWithStats_viewCount[OF assms(1)[OF s(2)]] by fastforce
  have "sorted_wrt (\<lambda>a b. k a \<ge> k b) (js_sort (\<lambda>a b. num_sub (yt_viewCount b) (yt_viewCount a)) ws)"
    by (rule sorted_js_sort) (simp add: n)
  then have "sorted_descending yt_viewCount (js_sort (\<lambda>a b. num_sub (yt_viewCount b) (yt_viewCount a)) ws)"
    unfolding sorted_descending_def
    by (intro sorted_wrt_num_ge[where k = k]) (auto simp: n set_js_sort)
  then show ?thesis using s by (simp add: searchVideos_def ws_def)
next
  case False
  then show ?thesis using assms(2)
    by (auto simp: searchVideos_def sorted_descending_def Let_def
        split: outcome.splits option.splits list.splits)
qed



lemma searchVideos_scenario:
  "map yt_viewCount (y_videos (searchVideos
      (Returned (Some [item ''a'' ''Volcano one'' ''Geo'', item ''b'' ''Volcano two'' ''Geo'',
                       item ''c'' ''Volcano three'' ''Geo'']))
      (Returned (Some [stat ''a'' (Some 500), stat ''b'' (Some 50000), stat ''c'' (Some 5000)]))
      0 [''volcanoes''])) = [Num 50000, Num 5000, Num 500]"
  by (simp add: searchVideos_def videosWithStats_def item_def stat_def parseInt_def)




text \<open>
  Claim C7 at an input where a statistics item carries no view count: the search succeeds,
  the view count of that video is \<open>NaN\<close>, every comparison with it counts as zero, and
  the list comes back in the order \<open>500, NaN, 50000\<close>, which is not descending.
\<close>

theorem searchVideos_missing_view_count:
  "y_success (searchVideos
      (Returned (Some [item ''a'' ''Volcano one'' ''Geo'', item ''b'' ''Volcano two'' ''Geo'',
                       item ''c'' ''Volcano three'' ''Geo'']))
      (Returned (Some [stat ''a'' (Some 500), stat ''b'' None, stat ''c'' (Some 50000)]))
      0 [''volcanoes'']) \<and>
   map yt_viewCount (y_videos (searchVideos
      (Returned (Some [item ''a'' ''Volcano one'' ''Geo'', item ''b'' ''Volcano two'' ''Geo'',
                       item ''c'' ''Volcano three'' ''Geo'']))
      (Returned (Some [stat ''a'' (Some 500), stat ''b'' None, stat ''c'' (Some 50000)]))
      0 [''volcanoes''])) = [Num 500, NaN, Num 50000] \<and>
   \<not> sorted_descending yt_viewCount (y_videos (searchVideos
      (Returned (Some [item ''a'' ''Volcano one'' ''Geo'', item ''b'' ''Volcano two'' ''Geo'',
                       item ''c'' ''Volcano three'' ''Geo'']))
      (Returned (Some [stat ''a'' (Some 500), stat ''b'' None, stat ''c'' (Some 50000)]))
      0 [''volcanoes'']))"
  by (simp add: searchVideos_def videosWithStats_def item_def stat_def parseInt_def
      sorted_descending_def)




lemma processedVideos_viewCount:
  "v \<in> set (processedVideos vs st) \<Longrightarrow> \<exists>n. yt_viewCount v = Num n"
  by (auto simp: processedVideos_def Let_def parseInt_or_0_def split: option.splits)

lemma calculateEducationalScore_eq:
  "yt_viewCount v = Num n \<Longrightarrow>
   calculateEducationalScore v = Num (relevance_score n (yt_title v) (yt_channelTitle v))"
  by (simp add: calculateEducationalScore_def Let_def score_fold relevance_score_def
      title_keyword_count_def academic_channel_def)


text \<open>
  Claim C8. When both requests of the educational search return their items, the search
  succeeds, returns at most 8 videos, sorted by the relevance score in descending order, and
  the score of each returned video is
  \<open>min (viewCount / 10000) 100 + 20 * (title keywords found) + 30 (academic channel)\<close>.
\<close>

theorem educational_search_scored:
  assumes "searchResponse = Returned (Some videos)"
    and "statisticsResponse = Returned (Some statisticsData)"
  shows "let r = getEducationalVideos searchResponse statisticsResponse plainSearch plainStatistics
                   now keywords
         in y_success r \<and> length (y_videos r) \<le> 8 \<and>
            sorted_descending calculateEducationalScore (y_videos r) \<and>
            list_all (\<lambda>v. \<exists>n. yt_viewCount v = Num n \<and>
                        calculateEducationalScore v =
                          Num (relevance_score n (yt_title v) (yt_channelTitle v)))
                     (y_videos r)"
proof -
  define ps where "ps = processedVideos (filter is_educational videos) statisticsData"
  define score_of :: "video \<Rightarrow> real" where
    "score_of = (\<lambda>v. case yt_viewCount v of
                  Num n \<Rightarrow> relevance_score n (yt_title v) (yt_channelTitle v) | NaN \<Rightarrow> 0)"
  define cmp where "cmp = (\<lambda>a b. num_sub (calculateEducationalScore b) (calculateEducationalScore a))"
  have sc: "\<And>v. v \<in> set ps \<Longrightarrow> calculateEducationalScore v = Num (score_of v)"
    unfolding ps_def score_of_def
    using processedVideos_viewCount calculateEducationalScore_eq by fastforce
  have "sorted_wrt (\<lambda>a b. score_of a \<ge> score_of b) (js_sort cmp ps)"
    by (rule sorted_js_sort) (simp add: cmp_def sc)
  then have "sorted_wrt (\<lambda>a b. score_of a \<ge> score_of b) (take 8 (js_sort cmp ps))"
    by (rule sorted_wrt_take)
  moreover have in_ps: "\<And>v. v \<in> set (take 8 (js_sort cmp ps)) \<Longrightarrow> v \<in> set ps"
    using set_js_sort[of cmp ps] by (auto dest: in_set_takeD)
  ultimately have sorted: "sorted_descending calculateEducationalScore (take 8 (js_sort cmp ps))"
    unfolding sorted_descending_def
    by (intro sorted_wrt_num_ge[where k = score_of]) (auto simp: sc)
  have each: "list_all (\<lambda>v. \<exists>n. yt_viewCount v = Num n \<and>
                        calculateEducationalScore v =
                          Num (relevance_score n (yt_title v) (yt_channelTitle v)))
                     (take 8 (js_sort cmp ps))"
    unfolding list_all_iff
  proof
    fix v assume "v \<in> set (take 8 (js_sort cmp ps))"
    then have "v \<in> set ps" by (rule in_ps)
    then obtain n where "yt_viewCount v = Num n"
      unfolding ps_def using processedVideos_viewCount by blast
    then show "\<exists>n. yt_viewCount v = Num n \<and>
                        calculateEducationalScore v =
                          Num (relevance_score n (yt_title v) (yt_channelTitle v))"
      using calculateEducationalScore_eq by blast
  qed
  show ?thesis
    using assms sorted each
    by (simp add: getEducationalVideos_def Let_def ps_def cmp_def sorted_descending_def)
qed


theorem educational_search_scored_witness:
  "map (\<lambda>v. (yt_videoId v, calculateEducationalScore v))
     (y_videos (getEducationalVideos
        (Returned (Some [item ''a'' ''Volcano tutorial'' ''Geo Academy'',
                         item ''b'' ''Learn how to map lava'' ''Lava fan'',
                         item ''c'' ''Funny cats'' ''Cats'']))
        (Returned (Some [stat ''a'' (Some 50000), stat ''b'' (Some 2000000), stat ''c'' (Some 9)]))
        Threw Threw 0 [''volcanoes''])) = [(''b'', Num 140), (''a'', Num 55)] \<and>
   sorted_descending calculateEducationalScore
     (y_videos (getEducationalVideos
        (Returned (Some [item ''a'' ''Volcano tutorial'' ''Geo Academy'',
                         item ''b'' ''Learn how to map lava'' ''Lava fan'',
                         item ''c'' ''Funny cats'' ''Cats'']))
        (Returned (Some [stat ''a'' (Some 50000), stat ''b'' (Some 2000000), stat ''c'' (Some 9)]))
        Threw Threw 0 [''volcanoes'']))"
proof -
  have e: "map (\<lambda>v. (yt_videoId v, calculateEducationalScore v))
     (y_videos (getEducationalVideos
        (Returned (Some [item ''a'' ''Volcano tutorial'' ''Geo Academy'',
                         item ''b'' ''Learn how to map lava'' ''Lava fan'',
                         item ''c'' ''Funny cats'' ''Cats'']))
        (Returned (Some [stat ''a'' (Some 50000), stat ''b'' (Some 2000000), stat ''c'' (Some 9)]))
        Threw Threw 0 [''volcanoes''])) = [(''b'', Num 140), (''a'', Num 55)]"
    by (simp add: getEducationalVideos_def processedVideos_def calculateEducationalScore_def
        is_educational_def item_def stat_def educationalIndicators_def educationalKeywords_def
        toLowerCase_def to_lower_def char_of_eq_iff parseInt_or_0_def Let_def)
  have "let r = getEducationalVideos
        (Returned (Some [item ''a'' ''Volcano tutorial'' ''Geo Academy'',
                         item ''b'' ''Learn how to map lava'' ''Lava fan'',
                         item ''c'' ''Funny cats'' ''Cats'']))
        (Returned (Some [stat ''a'' (Some 50000), stat ''b'' (Some 2000000), stat ''c'' (Some 9)]))
        Threw Threw 0 [''volcanoes'']
         in y_success r \<and> length (y_videos r) \<le> 8 \<and>
            sorted_descending calculateEducationalScore (y_videos r) \<and>
            list_all (\<lambda>v. \<exists>n. yt_viewCount v = Num n \<and>
                        calculateEducationalScore v =
                          Num (relevance_score n (yt_title v) (yt_channelTitle v)))
                     (y_videos r)"
    by (rule educational_search_scored [OF refl refl])
  then have "sorted_descending calculateEducationalScore
     (y_videos (getEducationalVideos
        (Returned (Some [item ''a'' ''Volcano tutorial'' ''Geo Academy'',
                         item ''b'' ''Learn how to map lava'' ''Lava fan'',
                         item ''c'' ''Funny cats'' ''Cats'']))
        (Returned (Some [stat ''a'' (Some 50000), stat ''b'' (Some 2000000), stat ''c'' (Some 9)]))
        Threw Threw 0 [''volcanoes'']))"
    unfolding Let_def by (elim conjE)
  with e show ?thesis by (rule conjI)
qed

section \<open>Properties of the paginated lists\<close>


lemma those_length: "those xs = Some ys \<Longrightarrow> length ys = length xs"
  by (induction xs arbitrary: ys) (auto split: option.splits)

lemma those_None_iff: "those xs = None \<longleftrightarrow> None \<in> set xs"
  by (induction xs) (auto split: option.splits)

lemma skip_limit_length:
  "0 \<le> skip \<Longrightarrow> 1 \<le> limit \<Longrightarrow> \<exists>ys. skip_limit skip limit xs = Inr ys \<and> length ys \<le> nat limit"
  by (simp add: skip_limit_def)

lemma ceil_div_less_iff:
  assumes "1 \<le> l"
  shows "p < ceil_div n l \<longleftrightarrow> p * l < int n"
proof -
  have l: "0 < real_of_int l" using assms by simp
  have "p < ceil_div n l \<longleftrightarrow> real_of_int p < real n / real_of_int l"
    by (simp add: ceil_div_def less_ceiling_iff)
  also have "\<dots> \<longleftrightarrow> real_of_int p * real_of_int l < real n"
    using l by (simp add: pos_less_divide_eq)
  also have "\<dots> \<longleftrightarrow> real_of_int (p * l) < real_of_int (int n)" by simp
  also have "\<dots> \<longleftrightarrow> p * l < int n" by (simp only: of_int_less_iff)
  finally show ?thesis .
qed

text \<open>
  What holds of the pagination: for a page \<open>p \<ge> 1\<close> and a limit \<open>l \<ge> 1\<close> (the values
  after the defaults), every document list that carries data, and the chat list, which always
  does, has \<open>hasNext = (p < \<lceil>total / l\<rceil>)\<close> and \<open>hasPrev = (p > 1)\<close>, and at most
  \<open>l\<close> items are returned.
\<close>

theorem pagination_metadata:
  assumes "1 \<le> or_int query_page 1" and "1 \<le> or_int query_limit 10"
  shows "(\<forall>d. data_of (getAllDocuments store query_page query_limit) = Some d \<longrightarrow>
            hasNext (l_pagination d) =
              (or_int query_page 1 < \<lceil>real (length store) / real_of_int (or_int query_limit 10)\<rceil>) \<and>
            hasPrev (l_pagination d) = (or_int query_page 1 > 1) \<and>
            length (l_documents d) \<le> nat (or_int query_limit 10)) \<and>
         (\<exists>d. getAllChats store chat_store query_page query_limit =
                Json 200 (formatResponse True ''Chat list retrieved successfully'' (Some d) None) \<and>
              hasNext (l_chat_pagination d) =
                (or_int query_page 1 < \<lceil>real (length chat_store) / real_of_int (or_int query_limit 10)\<rceil>) \<and>
              hasPrev (l_chat_pagination d) = (or_int query_page 1 > 1) \<and>
              length (l_chats d) \<le> nat (or_int query_limit 10))"
proof -
  define p where "p = or_int query_page 1"
  define l where "l = or_int query_limit 10"
  have sk: "0 \<le> (p - 1) * l" using assms by (simp add: p_def l_def)
  have l1: "1 \<le> l" using assms by (simp add: l_def)
  obtain docs where docs: "skip_limit ((p - 1) * l) l (newest_first d_createdAt store) = Inr docs"
    "length docs \<le> nat l" using skip_limit_length[OF sk l1] by blast
  obtain chats where chats: "skip_limit ((p - 1) * l) l (newest_first c_updatedAt chat_store) = Inr chats"
    "length chats \<le> nat l" using skip_limit_length[OF sk l1] by blast
  have a: "\<forall>d. data_of (getAllDocuments store query_page query_limit) = Some d \<longrightarrow>
            hasNext (l_pagination d) = (p < \<lceil>real (length store) / real_of_int l\<rceil>) \<and>
            hasPrev (l_pagination d) = (p > 1) \<and> length (l_documents d) \<le> nat l"
    using docs
    by (auto simp: getAllDocuments_def Let_def p_def[symmetric] l_def[symmetric] data_of_def
        formatResponse_def ceil_div_def those_length split: option.splits)
  have b: "\<exists>d. getAllChats store chat_store query_page query_limit =
                Json 200 (formatResponse True ''Chat list retrieved successfully'' (Some d) None) \<and>
              hasNext (l_chat_pagination d) = (p < \<lceil>real (length chat_store) / real_of_int l\<rceil>) \<and>
              hasPrev (l_chat_pagination d) = (p > 1) \<and> length (l_chats d) \<le> nat l"
    using chats
    apply (simp add: getAllChats_def Let_def p_def[symmetric] l_def[symmetric] ceil_div_def)
    apply (rule exI, rule conjI, rule refl)
    apply simp
    done
  show ?thesis using a b unfolding p_def l_def by blast
qed



theorem pagination_metadata_witness:
  "(\<exists>d. data_of (getAllDocuments
            [text_document ''d1'' 10, text_document ''d2'' 30, text_document ''d3'' 20]
            (Some 1) (Some 2)) = Some d \<and>
        map li_id (l_documents d) = [''d2'', ''d3''] \<and>
        hasNext (l_pagination d) \<and> \<not> hasPrev (l_pagination d)) \<and>
   (\<exists>d. getAllChats [] [example_chat] (Some 2) None =
          Json 200 (formatResponse True ''Chat list retrieved successfully'' (Some d) None) \<and>
        l_chats d = [] \<and> \<not> hasNext (l_chat_pagination d) \<and> hasPrev (l_chat_pagination d))"
proof -
  have e: "\<exists>d. data_of (getAllDocuments
            [text_document ''d1'' 10, text_document ''d2'' 30, text_document ''d3'' 20]
            (Some 1) (Some 2)) = Some d \<and> map li_id (l_documents d) = [''d2'', ''d3'']"
    by (simp add: getAllDocuments_def or_int_def skip_limit_def newest_first_def
        text_document_def example_document_def list_item_of_def data_of_def formatResponse_def)
  have p: "(1::int) \<le> or_int (Some 1) 1" "(1::int) \<le> or_int (Some 2) 10"
    "(1::int) \<le> or_int (Some 2) 1" "(1::int) \<le> or_int None 10"
    by (simp_all add: or_int_def)
  from pagination_metadata [OF p(1) p(2), of
      "[text_document ''d1'' 10, text_document ''d2'' 30, text_document ''d3'' 20]" "[]"] e
  have a: "\<exists>d. data_of (getAllDocuments
            [text_document ''d1'' 10, text_document ''d2'' 30, text_document ''d3'' 20]
            (Some 1) (Some 2)) = Some d \<and>
        map li_id (l_documents d) = [''d2'', ''d3''] \<and>
        hasNext (l_pagination d) \<and> \<not> hasPrev (l_pagination d)"
    by (auto simp: or_int_def)
  from pagination_metadata [OF p(3) p(4), of "[]" "[example_chat]"]
  obtain d where d: "getAllChats [] [example_chat] (Some 2) None =
          Json 200 (formatResponse True ''Chat list retrieved successfully'' (Some d) None)"
     "hasNext (l_chat_pagination d) = (or_int (Some 2) 1 < \<lceil>real (length [example_chat]) / real_of_int (or_int None 10)\<rceil>)"
     "hasPrev (l_chat_pagination d) = (or_int (Some 2) 1 > 1)"
     "length (l_chats d) \<le> nat (or_int None 10)"
    by blast
  have "l_chats d = []"
    using d(1) by (auto simp: getAllChats_def or_int_def skip_limit_def newest_first_def formatResponse_def)
  then have b: "\<exists>d. getAllChats [] [example_chat] (Some 2) None =
          Json 200 (formatResponse True ''Chat list retrieved successfully'' (Some d) None) \<and>
        l_chats d = [] \<and> \<not> hasNext (l_chat_pagination d) \<and> hasPrev (l_chat_pagination d)"
    using d by (auto simp: or_int_def)
  show ?thesis using a b by (rule conjI)
qed



lemma list_item_of_None: "list_item_of d = None \<longleftrightarrow> d_extractedText d = None"
  by (simp add: list_item_of_def split: option.splits)

lemma page_with_absent_text:
  "list_ex (\<lambda>d. d_extractedText d = None) docs \<Longrightarrow> those (map list_item_of docs) = None"
  by (auto simp: those_None_iff list_ex_iff list_item_of_None[symmetric] intro!: image_eqI)

lemma page_with_texts:
  "list_all (\<lambda>d. d_extractedText d \<noteq> None) docs \<Longrightarrow> \<exists>items. those (map list_item_of docs) = Some items"
proof -
  assume "list_all (\<lambda>d. d_extractedText d \<noteq> None) docs"
  then have "\<And>d. d \<in> set docs \<Longrightarrow> list_item_of d \<noteq> None"
    by (simp add: list_all_iff list_item_of_None)
  then have "None \<notin> set (map list_item_of docs)"
    by (metis (no_types, lifting) imageE list.set_map)
  then have "those (map list_item_of docs) \<noteq> None" by (simp add: those_None_iff)
  then show ?thesis by blast
qed


text \<open>
  Claim C2, amended. The document list fails with the 500 response whenever the requested
  page (after the sort, the skip and the limit) holds a document whose \<open>extractedText\<close> is
  absent; so a request for page 1 fails whenever the store is not empty and holds only
  documents without \<open>extractedText\<close>. A request whose page holds no such document is
  answered with status 200.
\<close>

theorem list_fails_on_absent_text:
  "(skip_limit ((or_int query_page 1 - 1) * or_int query_limit 10) (or_int query_limit 10)
       (newest_first d_createdAt store) = Inr docs \<and>
     list_ex (\<lambda>d. d_extractedText d = None) docs \<longrightarrow>
       getAllDocuments store query_page query_limit =
         Json 500 (formatResponse False ''Failed to retrieve documents'' None None)) \<and>
   (store \<noteq> [] \<and> list_all (\<lambda>d. d_extractedText d = None) store \<and> or_int query_page 1 = 1 \<longrightarrow>
       getAllDocuments store query_page query_limit =
         Json 500 (formatResponse False ''Failed to retrieve documents'' None None)) \<and>
   (skip_limit ((or_int query_page 1 - 1) * or_int query_limit 10) (or_int query_limit 10)
       (newest_first d_createdAt store) = Inr docs \<and>
     list_all (\<lambda>d. d_extractedText d \<noteq> None) docs \<longrightarrow>
       status_of (getAllDocuments store query_page query_limit) = 200)"
proof (intro conjI impI)
  assume "skip_limit ((or_int query_page 1 - 1) * or_int query_limit 10) (or_int query_limit 10)
       (newest_first d_createdAt store) = Inr docs \<and>
     list_ex (\<lambda>d. d_extractedText d = None) docs"
  then show "getAllDocuments store query_page query_limit =
         Json 500 (formatResponse False ''Failed to retrieve documents'' None None)"
    by (simp add: getAllDocuments_def Let_def page_with_absent_text)
next
  assume h: "store \<noteq> [] \<and> list_all (\<lambda>d. d_extractedText d = None) store \<and> or_int query_page 1 = 1"
  define l where "l = or_int query_limit 10"
  define sorted where "sorted = newest_first d_createdAt store"
  have l0: "l \<noteq> 0" by (simp add: l_def or_int_def split: option.splits)
  have s1: "set sorted = set store"
    by (simp add: sorted_def newest_first_def set_js_sort)
  have "length sorted = length store"
    by (simp add: sorted_def newest_first_def length_js_sort)
  moreover have "length store > 0" using h by simp
  ultimately have s2: "sorted \<noteq> []" by auto
  define docs where "docs = take (nat \<bar>l\<bar>) sorted"
  have "docs \<noteq> []" using s2 l0 by (simp add: docs_def)
  moreover have "set docs \<subseteq> set store" using s1 set_take_subset[of "nat \<bar>l\<bar>" sorted] by (simp add: docs_def)
  ultimately obtain d where "d \<in> set docs" "d \<in> set store"
    by (cases docs) auto
  moreover from h have "\<And>x. x \<in> set store \<Longrightarrow> d_extractedText x = None"
    by (simp add: list_all_iff)
  ultimately have "list_ex (\<lambda>d. d_extractedText d = None) docs"
    unfolding list_ex_iff by blast
  moreover have "skip_limit ((or_int query_page 1 - 1) * l) l sorted = Inr docs"
    using h l0 by (simp add: skip_limit_def docs_def)
  ultimately show "getAllDocuments store query_page query_limit =
         Json 500 (formatResponse False ''Failed to retrieve documents'' None None)"
    by (simp add: getAllDocuments_def Let_def page_with_absent_text l_def sorted_def)
next
  assume h: "skip_limit ((or_int query_page 1 - 1) * or_int query_limit 10) (or_int query_limit 10)
       (newest_first d_createdAt store) = Inr docs \<and>
     list_all (\<lambda>d. d_extractedText d \<noteq> None) docs"
  then obtain items where "those (map list_item_of docs) = Some items"
    using page_with_texts by blast
  with h show "status_of (getAllDocuments store query_page query_limit) = 200"
    by (simp add: getAllDocuments_def Let_def status_of_def)
qed




theorem list_fails_on_absent_text_witness:
  "getAllDocuments [text_document ''d0'' 5, example_document] None (Some 1) =
     Json 500 (formatResponse False ''Failed to retrieve documents'' None None) \<and>
   getAllDocuments [example_document] None None =
     Json 500 (formatResponse False ''Failed to retrieve documents'' None None) \<and>
   status_of (getAllDocuments [text_document ''d0'' 5, example_document] (Some 2) (Some 1)) = 200"
proof -
  have a: "skip_limit ((or_int None 1 - 1) * or_int (Some 1) 10) (or_int (Some 1) 10)
       (newest_first d_createdAt [text_document ''d0'' 5, example_document]) = Inr [example_document] \<and>
     list_ex (\<lambda>d. d_extractedText d = None) [example_document]"
    by (simp add: or_int_def skip_limit_def newest_first_def text_document_def example_document_def)
  have b: "[example_document] \<noteq> [] \<and> list_all (\<lambda>d. d_extractedText d = None) [example_document] \<and>
       or_int None 1 = 1"
    by (simp add: or_int_def example_document_def)
  have c: "skip_limit ((or_int (Some 2) 1 - 1) * or_int (Some 1) 10) (or_int (Some 1) 10)
       (newest_first d_createdAt [text_document ''d0'' 5, example_document]) = Inr [text_document ''d0'' 5] \<and>
     list_all (\<lambda>d. d_extractedText d \<noteq> None) [text_document ''d0'' 5]"
    by (simp add: or_int_def skip_limit_def newest_first_def text_document_def example_document_def)
  note r1 = mp [OF conjunct1 [OF list_fails_on_absent_text] a]
  note r2 = mp [OF conjunct1 [OF conjunct2 [OF list_fails_on_absent_text]] b]
  note r3 = mp [OF conjunct2 [OF conjunct2 [OF list_fails_on_absent_text]] c]
  show ?thesis using r1 r2 r3 by (intro conjI)
qed



theorem list_fails_on_absent_text_counterexample:
  "d_extractedText example_document = None \<and>
   getAllDocuments [example_document] (Some 2) None =
     Json 200 (formatResponse True ''Documents retrieved successfully''
       (Some \<lparr>l_documents = [],
              l_pagination = \<lparr>currentPage = 2, totalPages = 1, totalCount = 1,
                               hasNext = False, hasPrev = True\<rparr>\<rparr>) None)"
proof -
  have "\<lceil>(1::real) / 10\<rceil> = 1" by (rule ceiling_unique) simp_all
  then show ?thesis
    by (simp add: getAllDocuments_def or_int_def skip_limit_def newest_first_def
        example_document_def ceil_div_def)
qed


section \<open>Properties of the AI-analysis adapter and of the document pipeline\<close>


lemma analyzeContent_success:
  "ar_success (analyzeContent isConfigured generateContent JSON_parse extractedText userPrompt)"
  by (simp add: analyzeContent_def fallbackAnalysis_def parseAnalysisResponse_def Let_def
      split: outcome.splits option.splits)

lemma generateQuizQuestions_success:
  "qr_success (generateQuizQuestions isConfigured generateContent JSON_parse extractedText userPrompt)"
  by (simp add: generateQuizQuestions_def fallbackQuizGeneration_def parseQuizResponse_def
      split: outcome.splits option.splits)

lemma answerQuestion_success:
  "as_success (answerQuestion isConfigured generateContent question documentContent chatHistory)"
  by (simp add: answerQuestion_def split: outcome.splits)

text \<open>
  Claim C5. Whatever the provider does (not configured, a call that throws, a text that is
  not JSON, JSON with missing fields), each operation of the AI-analysis adapter returns
  \<open>success = true\<close>; so the upload pipeline never answers with its
  \<open>Failed to analyze content\<close> response.
\<close>

theorem adapters_always_succeed:
  "ar_success (analyzeContent configured analysisContent JSON_parse_analysis extractedText userPrompt) \<and>
   qr_success (generateQuizQuestions configured' quizContent JSON_parse_quiz storedText userPrompt') \<and>
   as_success (answerQuestion configured'' chatContent question documentContent chatHistory) \<and>
   fst (uploadAndAnalyze w store req) \<noteq>
     Json 500 (formatResponse False ''Failed to analyze content'' None None)"
proof -
  have "fst (uploadAndAnalyze w store req) \<noteq>
     Json 500 (formatResponse False ''Failed to analyze content'' None None)"
    by (simp add: uploadAndAnalyze_def Let_def formatResponse_def analyzeContent_success
        split: option.splits sum.splits prod.splits)
  then show ?thesis
    by (simp add: analyzeContent_success generateQuizQuestions_success answerQuestion_success)
qed


theorem adapters_always_succeed_witness:
  "ar_success (analyzeContent True (Returned ''no JSON here'') (\<lambda>s. None) ''Cells divide.'' ''explain mitosis'') \<and>
   qr_success (generateQuizQuestions True Threw (\<lambda>s. None) None ''explain mitosis'') \<and>
   as_success (answerQuestion False Threw ''What is mitosis?'' ''Cells divide.'' []) \<and>
   fst (uploadAndAnalyze example_providers []
          \<lparr>file_path = Some ''uploads/cells.png'', prompt = Some ''explain mitosis''\<rparr>) \<noteq>
     Json 500 (formatResponse False ''Failed to analyze content'' None None)"
  by (rule adapters_always_succeed)


lemma new_Document_extractedText:
  "new_Document newId newDocumentId now documentData = Inr d \<Longrightarrow>
   d_extractedText d = dd_extractedText documentData"
  by (auto simp: new_Document_def split: option.splits)

lemma save_new_appends:
  "save_new store now d = Inr (saved, store') \<Longrightarrow>
   store' = store @ [saved] \<and> d_extractedText saved = d_extractedText d"
  by (auto simp: save_new_def Let_def split: if_splits)

text \<open>
  Claim C1. The upload pipeline either leaves the store as it is or appends one document,
  and that document has no \<open>extractedText\<close>, whatever text the OCR step produced.
\<close>

theorem upload_omits_extractedText:
  "snd (uploadAndAnalyze w store req) = store \<or>
   (\<exists>d. snd (uploadAndAnalyze w store req) = store @ [d] \<and> d_extractedText d = None \<and>
        status_of (fst (uploadAndAnalyze w store req)) = 200)"
  by (auto simp: uploadAndAnalyze_def Let_def status_of_def
      dest!: new_Document_extractedText save_new_appends
      split: option.splits sum.splits prod.splits)



lemma fallbackAnalysis_success: "ar_success (fallbackAnalysis t p)"
  by (simp add: fallbackAnalysis_def Let_def)

lemma example_ocr:
  "detectDocumentStructure True (w_documentTextDetection example_providers) Threw ''uploads/cells.png'' =
     \<lparr>v_success = True, v_structuredText = Some ''Cells divide.'', v_extractedText = None,
      v_rawText = None, v_confidence = 0.9\<rparr>"
  by (simp add: example_providers_def detectDocumentStructure_def structuredTextOf_def
      paragraphText_def trim_def js_space_def nl_def truthy_def)

lemma example_run:
  "\<exists>d. snd (uploadAndAnalyze example_providers []
              \<lparr>file_path = Some ''uploads/cells.png'', prompt = Some ''explain mitosis''\<rparr>) = [d]"
proof -
  have v: "visionConfigured example_providers = True" "w_textDetection example_providers = Threw"
    "geminiConfigured example_providers = False"
    "w_educationalSearch example_providers = Returned (Some [])"
    "w_newId example_providers = ''d1''" "w_newDocumentId example_providers = ''x1''"
    by (simp_all add: example_providers_def)
  show ?thesis
    by (simp add: uploadAndAnalyze_def v example_ocr truthy_def or_default_def or_else_def
        analyzeContent_def fallbackAnalysis_success generateQuizQuestions_def
        fallbackQuizGeneration_def getEducationalVideos_def new_Document_def save_new_def
        validate_def valid_question_def cast_question_def Let_def)
qed


theorem upload_omits_extractedText_witness:
  "v_structuredText (detectDocumentStructure True (w_documentTextDetection example_providers) Threw
      ''uploads/cells.png'') = Some ''Cells divide.'' \<and>
   (\<exists>d. snd (uploadAndAnalyze example_providers []
              \<lparr>file_path = Some ''uploads/cells.png'', prompt = Some ''explain mitosis''\<rparr>) = [d] \<and>
        d_extractedText d = None)"
proof -
  from example_run obtain d0 where r:
    "snd (uploadAndAnalyze example_providers []
       \<lparr>file_path = Some ''uploads/cells.png'', prompt = Some ''explain mitosis''\<rparr>) = [d0]"
    by blast
  from upload_omits_extractedText [of example_providers "[]"
      "\<lparr>file_path = Some ''uploads/cells.png'', prompt = Some ''explain mitosis''\<rparr>"] r
  have "d_extractedText d0 = None" by simp
  with r show ?thesis by (simp add: example_ocr)
qed

section \<open>The document list after an upload\<close>


lemma example_run_absent_text:
  "\<exists>d. snd (uploadAndAnalyze example_providers []
              \<lparr>file_path = Some ''uploads/cells.png'', prompt = Some ''explain mitosis''\<rparr>) = [d] \<and>
        d_extractedText d = None"
proof -
  have v: "visionConfigured example_providers = True" "w_textDetection example_providers = Threw"
    "geminiConfigured example_providers = False"
    "w_educationalSearch example_providers = Returned (Some [])"
    "w_newId example_providers = ''d1''" "w_newDocumentId example_providers = ''x1''"
    by (simp_all add: example_providers_def)
  show ?thesis
    by (simp add: uploadAndAnalyze_def v example_ocr truthy_def or_default_def or_else_def
        analyzeContent_def fallbackAnalysis_success generateQuizQuestions_def
        fallbackQuizGeneration_def getEducationalVideos_def new_Document_def save_new_def
        validate_def valid_question_def cast_question_def Let_def)
qed

lemma single_document_page:
  "getAllDocuments [d] (Some 1) (Some 10) =
     (case list_item_of d of
        None \<Rightarrow> Json 500 (formatResponse False ''Failed to retrieve documents'' None None)
      | Some i \<Rightarrow>
          Json 200 (formatResponse True ''Documents retrieved successfully''
            (Some \<lparr>l_documents = [i],
                   l_pagination = \<lparr>currentPage = 1, totalPages = ceil_div 1 10, totalCount = 1,
                                    hasNext = (1 < ceil_div 1 10), hasPrev = False\<rparr>\<rparr>) None))"
  by (simp add: getAllDocuments_def or_int_def skip_limit_def newest_first_def split: option.splits)

text \<open>
  Claim C9 at the store that one upload leaves behind: the request for page 1 with limit 10
  is answered with the 500 failure response, which carries no data and so no pagination
  metadata, although the page and the limit are at least 1.
\<close>

theorem document_list_without_pagination:
  "getAllDocuments
     (snd (uploadAndAnalyze example_providers []
             \<lparr>file_path = Some ''uploads/cells.png'', prompt = Some ''explain mitosis''\<rparr>))
     (Some 1) (Some 10) =
     Json 500 (formatResponse False ''Failed to retrieve documents'' None None) \<and>
   data_of (getAllDocuments
     (snd (uploadAndAnalyze example_providers []
             \<lparr>file_path = Some ''uploads/cells.png'', prompt = Some ''explain mitosis''\<rparr>))
     (Some 1) (Some 10)) = None \<and>
   or_int (Some 1) 1 = 1 \<and> or_int (Some 10) 10 = 10"
proof -
  from example_run_absent_text obtain d where d:
    "snd (uploadAndAnalyze example_providers []
       \<lparr>file_path = Some ''uploads/cells.png'', prompt = Some ''explain mitosis''\<rparr>) = [d]"
    "d_extractedText d = None" by blast
  have "getAllDocuments [d] (Some 1) (Some 10) =
      Json 500 (formatResponse False ''Failed to retrieve documents'' None None)"
    using d(2) by (simp add: single_document_page list_item_of_def)
  then show ?thesis
    by (simp add: d(1) data_of_def formatResponse_def or_int_def)
qed


section \<open>Properties of quiz regeneration\<close>


lemma find_first_split:
  "find_first p xs = Some x \<Longrightarrow>
   \<exists>pre post. xs = pre @ x # post \<and> p x \<and> replace_first p y xs = pre @ y # post"
proof (induction xs)
  case Nil
  then show ?case by simp
next
  case (Cons a xs)
  show ?case
  proof (cases "p a")
    case True
    with Cons.prems have "a = x" by simp
    with True have "a # xs = [] @ x # xs \<and> p x \<and> replace_first p y (a # xs) = [] @ y # xs" by simp
    then show ?thesis by blast
  next
    case False
    with Cons.prems have "find_first p xs = Some x" by simp
    then obtain pre post where "xs = pre @ x # post" "p x" "replace_first p y xs = pre @ y # post"
      using Cons.IH by blast
    with False have "a # xs = (a # pre) @ x # post \<and> p x \<and>
        replace_first p y (a # xs) = (a # pre) @ y # post" by simp
    then show ?thesis by blast
  qed
qed

lemma same_but_quiz_refl: "same_but_quiz d d"
  by (simp add: same_but_quiz_def)

lemma list_all2_same_but_quiz_refl: "list_all2 same_but_quiz xs xs"
  by (simp add: list_all2_refl same_but_quiz_refl)

lemma regenerate_cases:
  "(status_of (fst (regenerateQuestions isObjectId w store ident)) \<noteq> 200 \<and>
    snd (regenerateQuestions isObjectId w store ident) = store) \<or>
   (\<exists>pre d post.
      store = pre @ d # post \<and> d_id d = ident \<and>
      snd (regenerateQuestions isObjectId w store ident) =
        pre @ d\<lparr>d_quizQuestions := map cast_question (qr_questions
                    (generateQuizQuestions (geminiConfigured w) (w_quizContent w)
                       (w_JSON_parse_quiz w) (d_extractedText d) (d_userPrompt d))),
                 d_updatedAt := w_now w\<rparr> # post \<and>
      fst (regenerateQuestions isObjectId w store ident) =
        Json 200 (formatResponse True ''Quiz questions regenerated successfully''
          (Some (map cast_question (qr_questions
                    (generateQuizQuestions (geminiConfigured w) (w_quizContent w)
                       (w_JSON_parse_quiz w) (d_extractedText d) (d_userPrompt d))))) None))"
proof (cases "ident \<noteq> [] \<and> (\<exists>d. findById isObjectId store ident = Inr (Some d))")
  case False
  then have "status_of (fst (regenerateQuestions isObjectId w store ident)) \<noteq> 200 \<and>
    snd (regenerateQuestions isObjectId w store ident) = store"
    by (auto simp: regenerateQuestions_def status_of_def split: sum.splits option.splits)
  then show ?thesis by blast
next
  case True
  then obtain d where d: "ident \<noteq> []" "findById isObjectId store ident = Inr (Some d)" by blast
  define qs where "qs = map cast_question (qr_questions
                    (generateQuizQuestions (geminiConfigured w) (w_quizContent w)
                       (w_JSON_parse_quiz w) (d_extractedText d) (d_userPrompt d)))"
  define d' where "d' = d\<lparr>d_quizQuestions := qs, d_updatedAt := w_now w\<rparr>"
  from d(2) have f: "find_first (\<lambda>x. d_id x = ident) store = Some d"
    by (simp add: findById_def split: if_splits)
  from find_first_split[OF f, of d'] obtain pre post where
    sp: "store = pre @ d # post" "d_id d = ident"
        "replace_first (\<lambda>x. d_id x = ident) d' store = pre @ d' # post"
    by blast
  show ?thesis
  proof (cases "validate d'")
    case False
    then have "status_of (fst (regenerateQuestions isObjectId w store ident)) \<noteq> 200 \<and>
      snd (regenerateQuestions isObjectId w store ident) = store"
      using d by (simp add: regenerateQuestions_def status_of_def save_existing_def Let_def
          qs_def d'_def)
    then show ?thesis by blast
  next
    case True
    then have "snd (regenerateQuestions isObjectId w store ident) = pre @ d' # post \<and>
      fst (regenerateQuestions isObjectId w store ident) =
        Json 200 (formatResponse True ''Quiz questions regenerated successfully'' (Some qs) None)"
      using d sp(2,3)
      by (simp add: regenerateQuestions_def save_existing_def Let_def qs_def d'_def)
    with sp(1,2) show ?thesis unfolding qs_def d'_def by blast
  qed
qed



text \<open>
  Claim C10. Quiz regeneration leaves every stored document as it was but for
  \<open>quizQuestions\<close> and \<open>updatedAt\<close>. When it answers with status 200 for an existing
  document, that document gets the questions generated from its stored \<open>extractedText\<close> and
  \<open>userPrompt\<close> and the current time, in its place in the store; otherwise the store is
  unchanged. The result depends on no provider but the quiz generation and the clock.
\<close>

theorem regenerate_frame:
  "list_all2 same_but_quiz store (snd (regenerateQuestions isObjectId w store ident)) \<and>
   (findById isObjectId store ident = Inr (Some d) \<and> ident \<noteq> [] \<and>
    status_of (fst (regenerateQuestions isObjectId w store ident)) = 200 \<longrightarrow>
      (\<exists>pre post.
         store = pre @ d # post \<and>
         snd (regenerateQuestions isObjectId w store ident) =
           pre @ d\<lparr>d_quizQuestions := map cast_question (qr_questions
                       (generateQuizQuestions (geminiConfigured w) (w_quizContent w)
                          (w_JSON_parse_quiz w) (d_extractedText d) (d_userPrompt d))),
                    d_updatedAt := w_now w\<rparr> # post)) \<and>
   (status_of (fst (regenerateQuestions isObjectId w store ident)) \<noteq> 200 \<longrightarrow>
      snd (regenerateQuestions isObjectId w store ident) = store) \<and>
   (geminiConfigured w' = geminiConfigured w \<and> w_quizContent w' = w_quizContent w \<and>
    w_JSON_parse_quiz w' = w_JSON_parse_quiz w \<and> w_now w' = w_now w \<longrightarrow>
      regenerateQuestions isObjectId w' store ident = regenerateQuestions isObjectId w store ident)"
proof (intro conjI impI)
  show "list_all2 same_but_quiz store (snd (regenerateQuestions isObjectId w store ident))"
    using regenerate_cases[of isObjectId w store ident]
  proof (elim disjE exE conjE)
    assume "snd (regenerateQuestions isObjectId w store ident) = store"
    then show ?thesis by (simp add: list_all2_same_but_quiz_refl)
  next
    fix pre d0 post
    assume a: "store = pre @ d0 # post"
      "snd (regenerateQuestions isObjectId w store ident) =
        pre @ d0\<lparr>d_quizQuestions := map cast_question (qr_questions
                    (generateQuizQuestions (geminiConfigured w) (w_quizContent w)
                       (w_JSON_parse_quiz w) (d_extractedText d0) (d_userPrompt d0))),
                 d_updatedAt := w_now w\<rparr> # post"
    have "list_all2 same_but_quiz (pre @ d0 # post)
        (pre @ d0\<lparr>d_quizQuestions := map cast_question (qr_questions
                    (generateQuizQuestions (geminiConfigured w) (w_quizContent w)
                       (w_JSON_parse_quiz w) (d_extractedText d0) (d_userPrompt d0))),
                 d_updatedAt := w_now w\<rparr> # post)"
      by (intro list_all2_appendI list_all2_same_but_quiz_refl list.rel_intros)
         (simp add: same_but_quiz_def)
    with a show ?thesis by simp
  qed
next
  assume h: "findById isObjectId store ident = Inr (Some d) \<and> ident \<noteq> [] \<and>
    status_of (fst (regenerateQuestions isObjectId w store ident)) = 200"
  then have f: "find_first (\<lambda>x. d_id x = ident) store = Some d"
    by (simp add: findById_def split: if_splits)
  from regenerate_cases[of isObjectId w store ident] h
  obtain pre d0 post where a: "store = pre @ d0 # post" "d_id d0 = ident"
      "snd (regenerateQuestions isObjectId w store ident) =
        pre @ d0\<lparr>d_quizQuestions := map cast_question (qr_questions
                    (generateQuizQuestions (geminiConfigured w) (w_quizContent w)
                       (w_JSON_parse_quiz w) (d_extractedText d0) (d_userPrompt d0))),
                 d_updatedAt := w_now w\<rparr> # post"
      "fst (regenerateQuestions isObjectId w store ident) =
        Json 200 (formatResponse True ''Quiz questions regenerated successfully''
          (Some (map cast_question (qr_questions
                    (generateQuizQuestions (geminiConfigured w) (w_quizContent w)
                       (w_JSON_parse_quiz w) (d_extractedText d0) (d_userPrompt d0))))) None)"
    by blast
  define qs where "qs = map cast_question (qr_questions
                    (generateQuizQuestions (geminiConfigured w) (w_quizContent w)
                       (w_JSON_parse_quiz w) (d_extractedText d) (d_userPrompt d)))"
  have di: "d_id d = ident" using find_first_split[OF f] by blast
  have "snd (regenerateQuestions isObjectId w store ident) =
      replace_first (\<lambda>x. d_id x = ident) (d\<lparr>d_quizQuestions := qs, d_updatedAt := w_now w\<rparr>) store"
    using h a(4) di
    by (auto simp: regenerateQuestions_def save_existing_def Let_def qs_def status_of_def
        split: sum.splits if_splits)
  moreover from find_first_split[OF f, of "d\<lparr>d_quizQuestions := qs, d_updatedAt := w_now w\<rparr>"]
  obtain pre' post' where "store = pre' @ d # post'"
     "replace_first (\<lambda>x. d_id x = ident) (d\<lparr>d_quizQuestions := qs, d_updatedAt := w_now w\<rparr>) store
        = pre' @ d\<lparr>d_quizQuestions := qs, d_updatedAt := w_now w\<rparr> # post'"
    by blast
  ultimately show "\<exists>pre post.
         store = pre @ d # post \<and>
         snd (regenerateQuestions isObjectId w store ident) =
           pre @ d\<lparr>d_quizQuestions := map cast_question (qr_questions
                       (generateQuizQuestions (geminiConfigured w) (w_quizContent w)
                          (w_JSON_parse_quiz w) (d_extractedText d) (d_userPrompt d))),
                    d_updatedAt := w_now w\<rparr> # post"
    unfolding qs_def by auto
next
  assume "status_of (fst (regenerateQuestions isObjectId w store ident)) \<noteq> 200"
  then show "snd (regenerateQuestions isObjectId w store ident) = store"
    using regenerate_cases[of isObjectId w store ident] by (auto simp: status_of_def)
next
  assume "geminiConfigured w' = geminiConfigured w \<and> w_quizContent w' = w_quizContent w \<and>
    w_JSON_parse_quiz w' = w_JSON_parse_quiz w \<and> w_now w' = w_now w"
  then show "regenerateQuestions isObjectId w' store ident = regenerateQuestions isObjectId w store ident"
    by (simp add: regenerateQuestions_def Let_def split: sum.splits option.splits)
qed



theorem regenerate_frame_witness:
  "status_of (fst (regenerateQuestions (\<lambda>s. True) (example_providers\<lparr>w_now := 1700000500\<rparr>)
      [text_document ''d0'' 5, example_document] ''d1'')) = 200 \<and>
   list_all2 same_but_quiz [text_document ''d0'' 5, example_document]
     (snd (regenerateQuestions (\<lambda>s. True) (example_providers\<lparr>w_now := 1700000500\<rparr>)
        [text_document ''d0'' 5, example_document] ''d1'')) \<and>
   map d_updatedAt
     (snd (regenerateQuestions (\<lambda>s. True) (example_providers\<lparr>w_now := 1700000500\<rparr>)
        [text_document ''d0'' 5, example_document] ''d1'')) = [1700000000, 1700000500] \<and>
   map (\<lambda>d. length (d_quizQuestions d))
     (snd (regenerateQuestions (\<lambda>s. True) (example_providers\<lparr>w_now := 1700000500\<rparr>)
        [text_document ''d0'' 5, example_document] ''d1'')) = [1, 3]"
proof -
  have e: "status_of (fst (regenerateQuestions (\<lambda>s. True) (example_providers\<lparr>w_now := 1700000500\<rparr>)
      [text_document ''d0'' 5, example_document] ''d1'')) = 200 \<and>
   map d_updatedAt
     (snd (regenerateQuestions (\<lambda>s. True) (example_providers\<lparr>w_now := 1700000500\<rparr>)
        [text_document ''d0'' 5, example_document] ''d1'')) = [1700000000, 1700000500] \<and>
   map (\<lambda>d. length (d_quizQuestions d))
     (snd (regenerateQuestions (\<lambda>s. True) (example_providers\<lparr>w_now := 1700000500\<rparr>)
        [text_document ''d0'' 5, example_document] ''d1'')) = [1, 3]"
    by (simp add: regenerateQuestions_def findById_def example_providers_def text_document_def
        example_document_def generateQuizQuestions_def fallbackQuizGeneration_def
        cast_question_def save_existing_def validate_def valid_question_def status_of_def Let_def)
  note f = conjunct1 [OF regenerate_frame [of "[text_document ''d0'' 5, example_document]"
      "\<lambda>s. True" "example_providers\<lparr>w_now := 1700000500\<rparr>" "''d1''"]]
  show ?thesis using e f by (intro conjI) (elim conjE, assumption)+
qed


section \<open>Properties of the chat export\<close>


lemma generatePDF_chat:
  "generatePDF \<lparr>ex_document = document, ex_chatHistory = chatHistory, ex_exportType = ''chat''\<rparr> =
     addHeader ''Study Material'' @ addContinuousContent document ''complete''"
  by (simp add: generatePDF_def generateCompletePDF_def)

lemma exportChatHistory_renders_document_only:
  assumes "ident \<noteq> []" and "findById isObjectId store ident = Inr (Some document)"
    and "findOne_chat chat_store ident = Some chatHistory" and "c_messages chatHistory \<noteq> []"
  shows "exportChatHistory isObjectId store chat_store now ident =
           Pdf (''chat-history-'' @ ident @ ''-'' @ show_nat now @ ''.pdf'')
               (addHeader ''Study Material'' @ addContinuousContent document ''complete'')"
  using assms by (simp add: exportChatHistory_def generatePDF_chat)

lemma exportChatHistory_not_found:
  assumes "ident \<noteq> []" and "findById isObjectId store ident = Inr (Some document)"
    and "findOne_chat chat_store ident = None \<or>
         (\<exists>c. findOne_chat chat_store ident = Some c \<and> c_messages c = [])"
  shows "exportChatHistory isObjectId store chat_store now ident =
           Json 404 (formatResponse False ''No chat history found for this document'' None None)"
  using assms by (auto simp: exportChatHistory_def)

lemma show_nat_example: "show_nat 1700000100 = ''1700000100''"
  by (simp add: show_nat.simps digit_def char_of_eq_iff)

lemma show_nat_1: "show_nat (Suc 0) = ''1''"
  by (simp add: show_nat.simps digit_def char_of_eq_iff)

text \<open>
  Claim C3 at a document with a chat history of two messages: the export answers with a PDF
  named after the chat history whose content is that of the complete export of the document,
  under the header \<open>Study Material\<close>; neither message of the conversation is written to it.
\<close>

theorem chat_export_omits_transcript:
  "exportChatHistory (\<lambda>s. True) [example_document] [example_chat] 1700000100 ''d1'' =
     Pdf ''chat-history-d1-1700000100.pdf''
       (addHeader ''Study Material'' @ addContinuousContent example_document ''complete'') \<and>
   pdf_texts (addHeader ''Study Material'' @ addContinuousContent example_document ''complete'') =
     [''Study Material'', ''Summary:'', ''Cells divide.'', ''Key Points:'', bullet @ '' Prophase'',
      ''Concepts:'', bullet @ '' Biology'', ''Detailed Explanation:'', ''Mitosis has phases.'',
      ''Quiz Questions:'', ''1. Key Concept Review'', ''   Answer: Review the main points'',
      ''   Explanation: Use this flashcard''] \<and>
   transcript_texts example_chat = [''What is mitosis?'', ''Mitosis is cell division.''] \<and>
   ''What is mitosis?'' \<notin>
     set (pdf_texts (addHeader ''Study Material'' @ addContinuousContent example_document ''complete'')) \<and>
   ''Mitosis is cell division.'' \<notin>
     set (pdf_texts (addHeader ''Study Material'' @ addContinuousContent example_document ''complete''))"
proof -
  have a: "exportChatHistory (\<lambda>s. True) [example_document] [example_chat] 1700000100 ''d1'' =
     Pdf ''chat-history-d1-1700000100.pdf''
       (addHeader ''Study Material'' @ addContinuousContent example_document ''complete'')"
    by (simp add: exportChatHistory_def findById_def findOne_chat_def generatePDF_chat
        show_nat_example example_document_def example_chat_def)
  have b: "pdf_texts (addHeader ''Study Material'' @ addContinuousContent example_document ''complete'') =
     [''Study Material'', ''Summary:'', ''Cells divide.'', ''Key Points:'', bullet @ '' Prophase'',
      ''Concepts:'', bullet @ '' Biology'', ''Detailed Explanation:'', ''Mitosis has phases.'',
      ''Quiz Questions:'', ''1. Key Concept Review'', ''   Answer: Review the main points'',
      ''   Explanation: Use this flashcard'']"
    by (simp add: pdf_texts_def addHeader_def addContinuousContent_def addContinuousQuiz_def
        quiz_entry_def example_document_def truthy_def template_def show_nat_1)
  have c: "transcript_texts example_chat = [''What is mitosis?'', ''Mitosis is cell division.'']"
    by (simp add: transcript_texts_def example_chat_def)
  show ?thesis unfolding b using a c by (simp add: bullet_def)
qed


end
